theory Spec2Isabelle
  imports Main
begin

section \<open>The SIP service of pkg/service/sip.go\<close>

text \<open>
  The file holds one type, \<open>SIPService\<close>, whose methods gate an administrative request
  behind a permission check, talk to a storage collaborator (\<open>SIPStore\<close>) and, for
  participant creation, to a remote peer (\<open>rpc.SIPClient\<close>). The methods hold no state
  of their own: everything they change lives in their collaborators.

  The embedding therefore threads one explicit state through every method: the state of
  the outside world (the store's contents, the entropy of the identifier generators, the
  clock, the remote peer), of a type \<open>'w\<close> the service never inspects, and the trace
  of the calls the method has made to its collaborators, in order. A collaborator is a
  function on the world; what the source imports from other packages is a field of the
  record \<open>packages\<close>, what it reaches through an interface value is a field of
  \<open>SIPStore\<close> or \<open>SIPClient\<close>.

  Pointers that the source dereferences without a check (the request, the client, a
  response returned with a nil error) are values here: a nil there is a runtime panic
  the service does not handle. The nil checks the source does make (\<open>s.store == nil\<close>,
  \<open>req.Trunk == nil\<close>) are branches of the model.
\<close>

subsection \<open>Messages\<close>

text \<open>
  The message types are declared in the protocol package, outside src/. Each record has
  the fields the source reads or writes; field names are prefixed where two messages
  share a name.
\<close>

record SIPTrunkInfo =
  SipTrunkId :: string
  InboundAddresses :: "string list"
  OutboundAddress :: string
  OutboundNumber :: string
  InboundNumbers :: "string list"
  InboundUsername :: string
  InboundPassword :: string
  OutboundUsername :: string
  OutboundPassword :: string
  Name :: string
  Metadata :: string

record CreateSIPTrunkRequest =
  req_InboundAddresses :: "string list"
  req_OutboundAddress :: string
  req_OutboundNumber :: string
  req_InboundNumbersRegex :: "string list"
  req_InboundNumbers :: "string list"
  req_InboundUsername :: string
  req_InboundPassword :: string
  req_OutboundUsername :: string
  req_OutboundPassword :: string
  req_Name :: string
  req_Metadata :: string

text \<open>
  Modelled from the spec: the declarations of the inbound and the outbound trunk are not in
  src/, and the source touches their \<open>SipTrunkId\<close> only. The other fields follow
  section 3 of the spec: accepted addresses and numbers and credentials for an inbound
  trunk, a destination address, calling numbers and credentials for an outbound one.
\<close>

record SIPInboundTrunkInfo =
  in_SipTrunkId :: string
  in_Name :: string
  in_Metadata :: string
  in_Numbers :: "string list"
  in_AllowedAddresses :: "string list"
  in_AllowedNumbers :: "string list"
  in_AuthUsername :: string
  in_AuthPassword :: string

record SIPOutboundTrunkInfo =
  out_SipTrunkId :: string
  out_Name :: string
  out_Metadata :: string
  out_Address :: string
  out_Numbers :: "string list"
  out_AuthUsername :: string
  out_AuthPassword :: string

text \<open>\<open>req.Trunk\<close> is a pointer the source compares with nil: an option.\<close>

record CreateSIPInboundTrunkRequest =
  in_Trunk :: "SIPInboundTrunkInfo option"

record CreateSIPOutboundTrunkRequest =
  out_Trunk :: "SIPOutboundTrunkInfo option"

record GetSIPInboundTrunkRequest =
  get_in_SipTrunkId :: string

record GetSIPOutboundTrunkRequest =
  get_out_SipTrunkId :: string

record DeleteSIPTrunkRequest =
  del_SipTrunkId :: string

text \<open>
  The dispatch rule proper (\<open>Rule\<close>) is a message the source only copies; it is kept
  opaque. \<open>Attributes\<close> is a Go map, copied as a whole: an association list.
\<close>

type_synonym SIPDispatchRule = "string option"

record SIPDispatchRuleInfo =
  SipDispatchRuleId :: string
  Rule :: SIPDispatchRule
  TrunkIds :: "string list"
  dr_InboundNumbers :: "string list"
  HidePhoneNumber :: bool
  dr_Name :: string
  dr_Metadata :: string
  Attributes :: "(string \<times> string) list"

record CreateSIPDispatchRuleRequest =
  rreq_Rule :: SIPDispatchRule
  rreq_TrunkIds :: "string list"
  rreq_InboundNumbers :: "string list"
  rreq_HidePhoneNumber :: bool
  rreq_Name :: string
  rreq_Metadata :: string
  rreq_Attributes :: "(string \<times> string) list"

record DeleteSIPDispatchRuleRequest =
  del_SipDispatchRuleId :: string

record CreateSIPParticipantRequest =
  p_SipTrunkId :: string
  p_SipCallTo :: string
  p_RoomName :: string

record InternalCreateSIPParticipantRequest =
  SipCallId :: string
  Number :: string
  Address :: string
  ireq_ProjectId :: string
  ireq_Hostname :: string
  ireq_WsUrl :: string
  ireq_Token :: string
  ireq_SipTrunkId :: string
  ireq_CallTo :: string
  ireq_RoomName :: string

record InternalCreateSIPParticipantResponse =
  resp_ParticipantId :: string
  resp_ParticipantIdentity :: string

record SIPParticipantInfo =
  ParticipantId :: string
  ParticipantIdentity :: string
  RoomName :: string
  pi_SipCallId :: string

datatype GetSIPInboundTrunkResponse = GetSIPInboundTrunkResponse SIPInboundTrunkInfo

datatype GetSIPOutboundTrunkResponse = GetSIPOutboundTrunkResponse SIPOutboundTrunkInfo

datatype ListSIPTrunkResponse = ListSIPTrunkResponse "SIPTrunkInfo list"

datatype ListSIPInboundTrunkResponse = ListSIPInboundTrunkResponse "SIPInboundTrunkInfo list"

datatype ListSIPOutboundTrunkResponse = ListSIPOutboundTrunkResponse "SIPOutboundTrunkInfo list"

datatype ListSIPDispatchRuleResponse = ListSIPDispatchRuleResponse "SIPDispatchRuleInfo list"

subsection \<open>Errors, time and the request context\<close>

text \<open>
  Modelled from the spec: \<open>twirpAuthError\<close> and \<open>ErrSIPNotConnected\<close> are declared in
  files of the package that are not in src/. The spec (sections 6 and 7) makes the
  authorization error and the store-unavailable error kinds of their own, distinct from
  every other kind; each is a constructor here.

  A Go \<open>error\<close> is an interface value; a method of the service either makes one itself
  or hands on, as it is, the one a collaborator returned. The service makes three kinds:
  \<^item> \<open>twirpAuthError(err)\<close>, around the error of a failed permission check;
  \<^item> \<open>ErrSIPNotConnected\<close>, a package variable;
  \<^item> \<open>errors.New(msg)\<close> and \<open>fmt.Errorf(msg)\<close>, a plain error with a message.

  \<open>ExternalError\<close> stands for an error value made outside the file (by a permission
  check, the store, a validator, the request builder or the remote peer). A collaborator
  may return any value of the type.
\<close>

datatype error =
    TwirpAuthError error
  | ErrSIPNotConnected
  | ErrorString string
  | ExternalError string

text \<open>
  Instants and durations in nanoseconds. A Go \<open>Duration\<close> is a signed 64-bit count;
  \<open>Time.Sub\<close> saturates at its bounds, and \<open>time.Until(t)\<close> is \<open>t.Sub(time.Now())\<close>.
\<close>

type_synonym Time = int

type_synonym Duration = int

definition Second :: Duration where
  "Second = 1000000000"

definition minDuration :: Duration where
  "minDuration = - (2 ^ 63)"

definition maxDuration :: Duration where
  "maxDuration = 2 ^ 63 - 1"

definition time_Sub :: "Time \<Rightarrow> Time \<Rightarrow> Duration" where
  "time_Sub t u =
     (let d = t - u
      in if d < minDuration then minDuration
         else if maxDuration < d then maxDuration
         else d)"

text \<open>
  Of a \<open>context.Context\<close> the service reads the deadline; the permission checks read
  the caller's grants from it, which stay opaque.
\<close>

record Context =
  Deadline :: "Time option"
  Grants :: "string list"

text \<open>
  \<open>context.WithTimeout(parent, timeout)\<close> at the instant \<open>now\<close>: the child's deadline
  is \<open>now + timeout\<close> unless the parent's is earlier.
\<close>

definition context_WithTimeout :: "Context \<Rightarrow> Duration \<Rightarrow> Time \<Rightarrow> Context" where
  "context_WithTimeout parent timeout now =
     (let d = now + timeout
      in case Deadline parent of
           Some cur \<Rightarrow> if cur < d then parent else parent\<lparr>Deadline := Some d\<rparr>
         | None \<Rightarrow> parent\<lparr>Deadline := Some d\<rparr>)"

subsection \<open>Collaborators and the trace of their calls\<close>

text \<open>One constructor for each method of the \<open>SIPStore\<close> interface the source calls.\<close>

datatype store_call =
    ListSIPTrunk_call
  | ListSIPInboundTrunk_call
  | ListSIPOutboundTrunk_call
  | ListSIPDispatchRule_call
  | LoadSIPInboundTrunk_call string
  | LoadSIPOutboundTrunk_call string
  | LoadSIPDispatchRule_call string
  | StoreSIPTrunk_call SIPTrunkInfo
  | StoreSIPInboundTrunk_call SIPInboundTrunkInfo
  | StoreSIPOutboundTrunk_call SIPOutboundTrunkInfo
  | StoreSIPDispatchRule_call SIPDispatchRuleInfo
  | DeleteSIPTrunk_call string
  | DeleteSIPDispatchRule_call SIPDispatchRuleInfo

text \<open>
  An event is one call that leaves the file, with its arguments: a permission check, a
  store method, a validator, an identifier generator, the remote call (with the context,
  the topic, the request and the timeout option it is given), \<open>log.Errorw\<close>, or
  \<open>logger.GetLogger().WithValues\<close> with the keys and values it is given.
\<close>

datatype event =
    EnsureSIPAdminPermission_call
  | EnsureSIPCallPermission_call
  | Store store_call
  | ValidateTrunks_call "SIPInboundTrunkInfo list"
  | ValidateDispatchRules_call "SIPDispatchRuleInfo list"
  | guid_New_call string
  | NewCallID_call
  | psrpc_CreateSIPParticipant_call Context string InternalCreateSIPParticipantRequest Duration
  | Errorw_call string error
  | logger_WithValues_call "(string \<times> string) list"

record 'w state =
  world :: 'w
  trace :: "event list"

definition emit :: "event \<Rightarrow> 'w state \<Rightarrow> 'w state" where
  "emit e st = st\<lparr>trace := trace st @ [e]\<rparr>"

definition invoke :: "event \<Rightarrow> ('w \<Rightarrow> 'a \<times> 'w) \<Rightarrow> 'w state \<Rightarrow> 'a \<times> 'w state" where
  "invoke e f st =
     (case f (world st) of (r, w') \<Rightarrow> (r, st\<lparr>world := w', trace := trace st @ [e]\<rparr>))"

text \<open>
  The \<open>SIPStore\<close> interface: a method takes the context and its argument and returns a
  value or an error (an error or nil for the methods that return only an error).
\<close>

record 'w SIPStore =
  store_ListSIPTrunk :: "Context \<Rightarrow> 'w \<Rightarrow> (error + SIPTrunkInfo list) \<times> 'w"
  store_ListSIPInboundTrunk :: "Context \<Rightarrow> 'w \<Rightarrow> (error + SIPInboundTrunkInfo list) \<times> 'w"
  store_ListSIPOutboundTrunk :: "Context \<Rightarrow> 'w \<Rightarrow> (error + SIPOutboundTrunkInfo list) \<times> 'w"
  store_ListSIPDispatchRule :: "Context \<Rightarrow> 'w \<Rightarrow> (error + SIPDispatchRuleInfo list) \<times> 'w"
  store_LoadSIPInboundTrunk :: "Context \<Rightarrow> string \<Rightarrow> 'w \<Rightarrow> (error + SIPInboundTrunkInfo) \<times> 'w"
  store_LoadSIPOutboundTrunk :: "Context \<Rightarrow> string \<Rightarrow> 'w \<Rightarrow> (error + SIPOutboundTrunkInfo) \<times> 'w"
  store_LoadSIPDispatchRule :: "Context \<Rightarrow> string \<Rightarrow> 'w \<Rightarrow> (error + SIPDispatchRuleInfo) \<times> 'w"
  store_StoreSIPTrunk :: "Context \<Rightarrow> SIPTrunkInfo \<Rightarrow> 'w \<Rightarrow> error option \<times> 'w"
  store_StoreSIPInboundTrunk :: "Context \<Rightarrow> SIPInboundTrunkInfo \<Rightarrow> 'w \<Rightarrow> error option \<times> 'w"
  store_StoreSIPOutboundTrunk :: "Context \<Rightarrow> SIPOutboundTrunkInfo \<Rightarrow> 'w \<Rightarrow> error option \<times> 'w"
  store_StoreSIPDispatchRule :: "Context \<Rightarrow> SIPDispatchRuleInfo \<Rightarrow> 'w \<Rightarrow> error option \<times> 'w"
  store_DeleteSIPTrunk :: "Context \<Rightarrow> string \<Rightarrow> 'w \<Rightarrow> error option \<times> 'w"
  store_DeleteSIPDispatchRule :: "Context \<Rightarrow> SIPDispatchRuleInfo \<Rightarrow> 'w \<Rightarrow> error option \<times> 'w"

text \<open>\<open>rpc.SIPClient\<close>: the one method the source calls, with its timeout option.\<close>

record 'w SIPClient =
  psrpc_CreateSIPParticipant ::
    "Context \<Rightarrow> string \<Rightarrow> InternalCreateSIPParticipantRequest \<Rightarrow> Duration \<Rightarrow> 'w
       \<Rightarrow> (error + InternalCreateSIPParticipantResponse) \<times> 'w"

text \<open>
  The struct. No method reads \<open>conf\<close>, \<open>bus\<close> or \<open>roomService\<close>; they are left out.
  \<open>store\<close> is the interface value the methods compare with nil.
\<close>

record 'w SIPService =
  nodeID :: string
  psrpcClient :: "'w SIPClient"
  store :: "'w SIPStore option"

text \<open>
  What the file uses of the packages it imports and of the rest of its own package: the
  permission checks (an error or nil, read from the context), the validators (an error or
  nil, from the list alone), the identifier generators (which draw on the world), the
  two identifier prefixes, the conversion of a legacy trunk to an inbound trunk, the
  builder of the internal request, and the clock.
\<close>

record 'w packages =
  EnsureSIPAdminPermission :: "Context \<Rightarrow> error option"
  EnsureSIPCallPermission :: "Context \<Rightarrow> error option"
  sip_ValidateTrunks :: "SIPInboundTrunkInfo list \<Rightarrow> error option"
  sip_ValidateDispatchRules :: "SIPDispatchRuleInfo list \<Rightarrow> error option"
  guid_New :: "string \<Rightarrow> 'w \<Rightarrow> string \<times> 'w"
  sip_NewCallID :: "'w \<Rightarrow> string \<times> 'w"
  utils_SIPTrunkPrefix :: string
  utils_SIPDispatchRulePrefix :: string
  AsInbound :: "SIPTrunkInfo \<Rightarrow> SIPInboundTrunkInfo"
  rpc_NewCreateSIPParticipantRequest ::
    "string \<Rightarrow> string \<Rightarrow> string \<Rightarrow> string \<Rightarrow> string \<Rightarrow> CreateSIPParticipantRequest
       \<Rightarrow> SIPOutboundTrunkInfo \<Rightarrow> error + InternalCreateSIPParticipantRequest"
  time_Now :: "'w \<Rightarrow> Time"

definition time_Until :: "'w packages \<Rightarrow> Time \<Rightarrow> 'w \<Rightarrow> Duration" where
  "time_Until pk t w = time_Sub t (time_Now pk w)"

subsection \<open>Creating trunks\<close>

text \<open>
  The struct literal of \<open>CreateSIPTrunk\<close>: the request's fields, \<open>SipTrunkId\<close> left at
  its zero value.
\<close>

definition trunk_of_request :: "CreateSIPTrunkRequest \<Rightarrow> SIPTrunkInfo" where
  "trunk_of_request req =
     \<lparr>SipTrunkId = [],
      InboundAddresses = req_InboundAddresses req,
      OutboundAddress = req_OutboundAddress req,
      OutboundNumber = req_OutboundNumber req,
      InboundNumbers = req_InboundNumbers req,
      InboundUsername = req_InboundUsername req,
      InboundPassword = req_InboundPassword req,
      OutboundUsername = req_OutboundUsername req,
      OutboundPassword = req_OutboundPassword req,
      Name = req_Name req,
      Metadata = req_Metadata req\<rparr>"

definition CreateSIPTrunk ::
  "'w packages \<Rightarrow> 'w SIPService \<Rightarrow> Context \<Rightarrow> CreateSIPTrunkRequest \<Rightarrow> 'w state
     \<Rightarrow> (error + SIPTrunkInfo) \<times> 'w state" where
  "CreateSIPTrunk pk s ctx req st0 =
     (let st1 = emit EnsureSIPAdminPermission_call st0
      in case EnsureSIPAdminPermission pk ctx of
           Some err \<Rightarrow> (Inl (TwirpAuthError err), st1)
         | None \<Rightarrow>
             (case store s of
                None \<Rightarrow> (Inl ErrSIPNotConnected, st1)
              | Some sto \<Rightarrow>
                  if req_InboundNumbersRegex req \<noteq> []
                  then (Inl (ErrorString
                          ''Trunks with InboundNumbersRegex are deprecated. Use InboundNumbers instead.''),
                        st1)
                  else
                    let info = trunk_of_request req
                    in (case invoke (Store ListSIPInboundTrunk_call)
                               (store_ListSIPInboundTrunk sto ctx) st1 of
                          (Inl err, st2) \<Rightarrow> (Inl err, st2)
                        | (Inr list, st2) \<Rightarrow>
                            let list' = list @ [AsInbound pk info];
                                st3 = emit (ValidateTrunks_call list') st2
                            in (case sip_ValidateTrunks pk list' of
                                  Some err \<Rightarrow> (Inl err, st3)
                                | None \<Rightarrow>
                                    (case invoke (guid_New_call (utils_SIPTrunkPrefix pk))
                                            (guid_New pk (utils_SIPTrunkPrefix pk)) st3 of
                                       (new_id, st4) \<Rightarrow>
                                         let info' = info\<lparr>SipTrunkId := new_id\<rparr>
                                         in (case invoke (Store (StoreSIPTrunk_call info'))
                                                    (store_StoreSIPTrunk sto ctx info') st4 of
                                               (Some err, st5) \<Rightarrow> (Inl err, st5)
                                             | (None, st5) \<Rightarrow> (Inr info', st5)))))))"

definition CreateSIPInboundTrunk ::
  "'w packages \<Rightarrow> 'w SIPService \<Rightarrow> Context \<Rightarrow> CreateSIPInboundTrunkRequest \<Rightarrow> 'w state
     \<Rightarrow> (error + SIPInboundTrunkInfo) \<times> 'w state" where
  "CreateSIPInboundTrunk pk s ctx req st0 =
     (let st1 = emit EnsureSIPAdminPermission_call st0
      in case EnsureSIPAdminPermission pk ctx of
           Some err \<Rightarrow> (Inl (TwirpAuthError err), st1)
         | None \<Rightarrow>
             (case store s of
                None \<Rightarrow> (Inl ErrSIPNotConnected, st1)
              | Some sto \<Rightarrow>
                  (case in_Trunk req of
                     None \<Rightarrow> (Inl (ErrorString ''trunk info is required''), st1)
                   | Some info \<Rightarrow>
                       if in_SipTrunkId info \<noteq> []
                       then (Inl (ErrorString ''trunk ID must be empty''), st1)
                       else
                         (case invoke (Store ListSIPInboundTrunk_call)
                                 (store_ListSIPInboundTrunk sto ctx) st1 of
                            (Inl err, st2) \<Rightarrow> (Inl err, st2)
                          | (Inr list, st2) \<Rightarrow>
                              let list' = list @ [info];
                                  st3 = emit (ValidateTrunks_call list') st2
                              in (case sip_ValidateTrunks pk list' of
                                    Some err \<Rightarrow> (Inl err, st3)
                                  | None \<Rightarrow>
                                      (case invoke (guid_New_call (utils_SIPTrunkPrefix pk))
                                              (guid_New pk (utils_SIPTrunkPrefix pk)) st3 of
                                         (new_id, st4) \<Rightarrow>
                                           let info' = info\<lparr>in_SipTrunkId := new_id\<rparr>
                                           in (case invoke (Store (StoreSIPInboundTrunk_call info'))
                                                      (store_StoreSIPInboundTrunk sto ctx info') st4 of
                                                 (Some err, st5) \<Rightarrow> (Inl err, st5)
                                               | (None, st5) \<Rightarrow> (Inr info', st5))))))))"

definition CreateSIPOutboundTrunk ::
  "'w packages \<Rightarrow> 'w SIPService \<Rightarrow> Context \<Rightarrow> CreateSIPOutboundTrunkRequest \<Rightarrow> 'w state
     \<Rightarrow> (error + SIPOutboundTrunkInfo) \<times> 'w state" where
  "CreateSIPOutboundTrunk pk s ctx req st0 =
     (let st1 = emit EnsureSIPAdminPermission_call st0
      in case EnsureSIPAdminPermission pk ctx of
           Some err \<Rightarrow> (Inl (TwirpAuthError err), st1)
         | None \<Rightarrow>
             (case store s of
                None \<Rightarrow> (Inl ErrSIPNotConnected, st1)
              | Some sto \<Rightarrow>
                  (case out_Trunk req of
                     None \<Rightarrow> (Inl (ErrorString ''trunk info is required''), st1)
                   | Some info \<Rightarrow>
                       if out_SipTrunkId info \<noteq> []
                       then (Inl (ErrorString ''trunk ID must be empty''), st1)
                       else
                         (case invoke (guid_New_call (utils_SIPTrunkPrefix pk))
                                 (guid_New pk (utils_SIPTrunkPrefix pk)) st1 of
                            (new_id, st2) \<Rightarrow>
                              let info' = info\<lparr>out_SipTrunkId := new_id\<rparr>
                              in (case invoke (Store (StoreSIPOutboundTrunk_call info'))
                                         (store_StoreSIPOutboundTrunk sto ctx info') st2 of
                                    (Some err, st3) \<Rightarrow> (Inl err, st3)
                                  | (None, st3) \<Rightarrow> (Inr info', st3))))))"

subsection \<open>Reading trunks\<close>

definition GetSIPInboundTrunk ::
  "'w packages \<Rightarrow> 'w SIPService \<Rightarrow> Context \<Rightarrow> GetSIPInboundTrunkRequest \<Rightarrow> 'w state
     \<Rightarrow> (error + GetSIPInboundTrunkResponse) \<times> 'w state" where
  "GetSIPInboundTrunk pk s ctx req st0 =
     (let st1 = emit EnsureSIPAdminPermission_call st0
      in case EnsureSIPAdminPermission pk ctx of
           Some err \<Rightarrow> (Inl (TwirpAuthError err), st1)
         | None \<Rightarrow>
             (case store s of
                None \<Rightarrow> (Inl ErrSIPNotConnected, st1)
              | Some sto \<Rightarrow>
                  (case invoke (Store (LoadSIPInboundTrunk_call (get_in_SipTrunkId req)))
                          (store_LoadSIPInboundTrunk sto ctx (get_in_SipTrunkId req)) st1 of
                     (Inl err, st2) \<Rightarrow> (Inl err, st2)
                   | (Inr trunk, st2) \<Rightarrow> (Inr (GetSIPInboundTrunkResponse trunk), st2))))"

definition GetSIPOutboundTrunk ::
  "'w packages \<Rightarrow> 'w SIPService \<Rightarrow> Context \<Rightarrow> GetSIPOutboundTrunkRequest \<Rightarrow> 'w state
     \<Rightarrow> (error + GetSIPOutboundTrunkResponse) \<times> 'w state" where
  "GetSIPOutboundTrunk pk s ctx req st0 =
     (let st1 = emit EnsureSIPAdminPermission_call st0
      in case EnsureSIPAdminPermission pk ctx of
           Some err \<Rightarrow> (Inl (TwirpAuthError err), st1)
         | None \<Rightarrow>
             (case store s of
                None \<Rightarrow> (Inl ErrSIPNotConnected, st1)
              | Some sto \<Rightarrow>
                  (case invoke (Store (LoadSIPOutboundTrunk_call (get_out_SipTrunkId req)))
                          (store_LoadSIPOutboundTrunk sto ctx (get_out_SipTrunkId req)) st1 of
                     (Inl err, st2) \<Rightarrow> (Inl err, st2)
                   | (Inr trunk, st2) \<Rightarrow> (Inr (GetSIPOutboundTrunkResponse trunk), st2))))"

text \<open>The list requests have no field the source reads: \<open>unit\<close>.\<close>

definition ListSIPTrunk ::
  "'w packages \<Rightarrow> 'w SIPService \<Rightarrow> Context \<Rightarrow> unit \<Rightarrow> 'w state
     \<Rightarrow> (error + ListSIPTrunkResponse) \<times> 'w state" where
  "ListSIPTrunk pk s ctx req st0 =
     (let st1 = emit EnsureSIPAdminPermission_call st0
      in case EnsureSIPAdminPermission pk ctx of
           Some err \<Rightarrow> (Inl (TwirpAuthError err), st1)
         | None \<Rightarrow>
             (case store s of
                None \<Rightarrow> (Inl ErrSIPNotConnected, st1)
              | Some sto \<Rightarrow>
                  (case invoke (Store ListSIPTrunk_call)
                          (store_ListSIPTrunk sto ctx) st1 of
                     (Inl err, st2) \<Rightarrow> (Inl err, st2)
                   | (Inr trunks, st2) \<Rightarrow> (Inr (ListSIPTrunkResponse trunks), st2))))"

definition ListSIPInboundTrunk ::
  "'w packages \<Rightarrow> 'w SIPService \<Rightarrow> Context \<Rightarrow> unit \<Rightarrow> 'w state
     \<Rightarrow> (error + ListSIPInboundTrunkResponse) \<times> 'w state" where
  "ListSIPInboundTrunk pk s ctx req st0 =
     (let st1 = emit EnsureSIPAdminPermission_call st0
      in case EnsureSIPAdminPermission pk ctx of
           Some err \<Rightarrow> (Inl (TwirpAuthError err), st1)
         | None \<Rightarrow>
             (case store s of
                None \<Rightarrow> (Inl ErrSIPNotConnected, st1)
              | Some sto \<Rightarrow>
                  (case invoke (Store ListSIPInboundTrunk_call)
                          (store_ListSIPInboundTrunk sto ctx) st1 of
                     (Inl err, st2) \<Rightarrow> (Inl err, st2)
                   | (Inr trunks, st2) \<Rightarrow> (Inr (ListSIPInboundTrunkResponse trunks), st2))))"

definition ListSIPOutboundTrunk ::
  "'w packages \<Rightarrow> 'w SIPService \<Rightarrow> Context \<Rightarrow> unit \<Rightarrow> 'w state
     \<Rightarrow> (error + ListSIPOutboundTrunkResponse) \<times> 'w state" where
  "ListSIPOutboundTrunk pk s ctx req st0 =
     (let st1 = emit EnsureSIPAdminPermission_call st0
      in case EnsureSIPAdminPermission pk ctx of
           Some err \<Rightarrow> (Inl (TwirpAuthError err), st1)
         | None \<Rightarrow>
             (case store s of
                None \<Rightarrow> (Inl ErrSIPNotConnected, st1)
              | Some sto \<Rightarrow>
                  (case invoke (Store ListSIPOutboundTrunk_call)
                          (store_ListSIPOutboundTrunk sto ctx) st1 of
                     (Inl err, st2) \<Rightarrow> (Inl err, st2)
                   | (Inr trunks, st2) \<Rightarrow> (Inr (ListSIPOutboundTrunkResponse trunks), st2))))"

subsection \<open>Deleting a trunk\<close>

text \<open>
  The zero value of \<open>SIPTrunkInfo\<close>: what a Go struct literal leaves in the fields it
  does not name.
\<close>

definition SIPTrunkInfo_zero :: SIPTrunkInfo where
  "SIPTrunkInfo_zero =
     \<lparr>SipTrunkId = [], InboundAddresses = [], OutboundAddress = [], OutboundNumber = [],
      InboundNumbers = [], InboundUsername = [], InboundPassword = [],
      OutboundUsername = [], OutboundPassword = [], Name = [], Metadata = []\<rparr>"

definition DeleteSIPTrunk ::
  "'w packages \<Rightarrow> 'w SIPService \<Rightarrow> Context \<Rightarrow> DeleteSIPTrunkRequest \<Rightarrow> 'w state
     \<Rightarrow> (error + SIPTrunkInfo) \<times> 'w state" where
  "DeleteSIPTrunk pk s ctx req st0 =
     (let st1 = emit EnsureSIPAdminPermission_call st0
      in case EnsureSIPAdminPermission pk ctx of
           Some err \<Rightarrow> (Inl (TwirpAuthError err), st1)
         | None \<Rightarrow>
             (case store s of
                None \<Rightarrow> (Inl ErrSIPNotConnected, st1)
              | Some sto \<Rightarrow>
                  (case invoke (Store (DeleteSIPTrunk_call (del_SipTrunkId req)))
                          (store_DeleteSIPTrunk sto ctx (del_SipTrunkId req)) st1 of
                     (Some err, st2) \<Rightarrow> (Inl err, st2)
                   | (None, st2) \<Rightarrow>
                       (Inr (SIPTrunkInfo_zero\<lparr>SipTrunkId := del_SipTrunkId req\<rparr>), st2))))"

subsection \<open>Dispatch rules\<close>

text \<open>
  The struct literal of \<open>CreateSIPDispatchRule\<close>: the request's fields,
  \<open>SipDispatchRuleId\<close> left at its zero value.
\<close>

definition rule_of_request :: "CreateSIPDispatchRuleRequest \<Rightarrow> SIPDispatchRuleInfo" where
  "rule_of_request req =
     \<lparr>SipDispatchRuleId = [],
      Rule = rreq_Rule req,
      TrunkIds = rreq_TrunkIds req,
      dr_InboundNumbers = rreq_InboundNumbers req,
      HidePhoneNumber = rreq_HidePhoneNumber req,
      dr_Name = rreq_Name req,
      dr_Metadata = rreq_Metadata req,
      Attributes = rreq_Attributes req\<rparr>"

definition CreateSIPDispatchRule ::
  "'w packages \<Rightarrow> 'w SIPService \<Rightarrow> Context \<Rightarrow> CreateSIPDispatchRuleRequest \<Rightarrow> 'w state
     \<Rightarrow> (error + SIPDispatchRuleInfo) \<times> 'w state" where
  "CreateSIPDispatchRule pk s ctx req st0 =
     (let st1 = emit EnsureSIPAdminPermission_call st0
      in case EnsureSIPAdminPermission pk ctx of
           Some err \<Rightarrow> (Inl (TwirpAuthError err), st1)
         | None \<Rightarrow>
             (case store s of
                None \<Rightarrow> (Inl ErrSIPNotConnected, st1)
              | Some sto \<Rightarrow>
                  let info = rule_of_request req
                  in (case invoke (Store ListSIPDispatchRule_call)
                             (store_ListSIPDispatchRule sto ctx) st1 of
                        (Inl err, st2) \<Rightarrow> (Inl err, st2)
                      | (Inr list, st2) \<Rightarrow>
                          let list' = list @ [info];
                              st3 = emit (ValidateDispatchRules_call list') st2
                          in (case sip_ValidateDispatchRules pk list' of
                                Some err \<Rightarrow> (Inl err, st3)
                              | None \<Rightarrow>
                                  (case invoke (guid_New_call (utils_SIPDispatchRulePrefix pk))
                                          (guid_New pk (utils_SIPDispatchRulePrefix pk)) st3 of
                                     (new_id, st4) \<Rightarrow>
                                       let info' = info\<lparr>SipDispatchRuleId := new_id\<rparr>
                                       in (case invoke (Store (StoreSIPDispatchRule_call info'))
                                                  (store_StoreSIPDispatchRule sto ctx info') st4 of
                                             (Some err, st5) \<Rightarrow> (Inl err, st5)
                                           | (None, st5) \<Rightarrow> (Inr info', st5)))))))"

definition ListSIPDispatchRule ::
  "'w packages \<Rightarrow> 'w SIPService \<Rightarrow> Context \<Rightarrow> unit \<Rightarrow> 'w state
     \<Rightarrow> (error + ListSIPDispatchRuleResponse) \<times> 'w state" where
  "ListSIPDispatchRule pk s ctx req st0 =
     (let st1 = emit EnsureSIPAdminPermission_call st0
      in case EnsureSIPAdminPermission pk ctx of
           Some err \<Rightarrow> (Inl (TwirpAuthError err), st1)
         | None \<Rightarrow>
             (case store s of
                None \<Rightarrow> (Inl ErrSIPNotConnected, st1)
              | Some sto \<Rightarrow>
                  (case invoke (Store ListSIPDispatchRule_call)
                          (store_ListSIPDispatchRule sto ctx) st1 of
                     (Inl err, st2) \<Rightarrow> (Inl err, st2)
                   | (Inr rules, st2) \<Rightarrow> (Inr (ListSIPDispatchRuleResponse rules), st2))))"

definition DeleteSIPDispatchRule ::
  "'w packages \<Rightarrow> 'w SIPService \<Rightarrow> Context \<Rightarrow> DeleteSIPDispatchRuleRequest \<Rightarrow> 'w state
     \<Rightarrow> (error + SIPDispatchRuleInfo) \<times> 'w state" where
  "DeleteSIPDispatchRule pk s ctx req st0 =
     (let st1 = emit EnsureSIPAdminPermission_call st0
      in case EnsureSIPAdminPermission pk ctx of
           Some err \<Rightarrow> (Inl (TwirpAuthError err), st1)
         | None \<Rightarrow>
             (case store s of
                None \<Rightarrow> (Inl ErrSIPNotConnected, st1)
              | Some sto \<Rightarrow>
                  (case invoke (Store (LoadSIPDispatchRule_call (del_SipDispatchRuleId req)))
                          (store_LoadSIPDispatchRule sto ctx (del_SipDispatchRuleId req)) st1 of
                     (Inl err, st2) \<Rightarrow> (Inl err, st2)
                   | (Inr info, st2) \<Rightarrow>
                       (case invoke (Store (DeleteSIPDispatchRule_call info))
                               (store_DeleteSIPDispatchRule sto ctx info) st2 of
                          (Some err, st3) \<Rightarrow> (Inl err, st3)
                        | (None, st3) \<Rightarrow> (Inr info, st3)))))"

subsection \<open>Creating a SIP participant\<close>

text \<open>
  \<open>CreateSIPParticipantRequest\<close> starts with the permission check. The loggers it
  builds come after both gates and only decorate what \<open>Errorw\<close> writes; an
  \<open>Errorw\<close> is an event with its message and its error.
\<close>

definition CreateSIPParticipantRequest ::
  "'w packages \<Rightarrow> 'w SIPService \<Rightarrow> Context \<Rightarrow> CreateSIPParticipantRequest
     \<Rightarrow> string \<Rightarrow> string \<Rightarrow> string \<Rightarrow> string \<Rightarrow> 'w state
     \<Rightarrow> (error + InternalCreateSIPParticipantRequest) \<times> 'w state" where
  "CreateSIPParticipantRequest pk s ctx req projectID host wsUrl token st0 =
     (let st1 = emit EnsureSIPCallPermission_call st0
      in case EnsureSIPCallPermission pk ctx of
           Some err \<Rightarrow> (Inl (TwirpAuthError err), st1)
         | None \<Rightarrow>
             (case store s of
                None \<Rightarrow> (Inl ErrSIPNotConnected, st1)
              | Some sto \<Rightarrow>
                  (case invoke NewCallID_call (sip_NewCallID pk) st1 of
                     (callID, st2) \<Rightarrow>
                       (case invoke (Store (LoadSIPOutboundTrunk_call (p_SipTrunkId req)))
                               (store_LoadSIPOutboundTrunk sto ctx (p_SipTrunkId req)) st2 of
                          (Inl err, st3) \<Rightarrow>
                            (Inl err,
                             emit (Errorw_call ''cannot get trunk to update sip participant'' err) st3)
                        | (Inr trunk, st3) \<Rightarrow>
                            (rpc_NewCreateSIPParticipantRequest pk projectID callID host wsUrl
                               token req trunk, st3)))))"

text \<open>
  \<open>CreateSIPParticipant\<close> does one thing before it reaches the permission check (inside
  \<open>CreateSIPParticipantRequest\<close>): its first statement builds a logger,
  \<open>logger.GetLogger().WithValues\<close>, from three fields of the request. That call is an
  event. These are the keys and values it is given.
\<close>

definition request_log_values :: "CreateSIPParticipantRequest \<Rightarrow> (string \<times> string) list" where
  "request_log_values req =
     [(''roomName'', p_RoomName req), (''sipTrunk'', p_SipTrunkId req),
      (''toUser'', p_SipCallTo req)]"

text \<open>
  The timeout of the remote call and the context it runs under are the time until the
  caller's deadline and the caller's context, or 30 seconds and a child context with that
  timeout. (\<open>defer cancel()\<close> releases the child context on return; nothing observes it.)
  The empty string is the topic of the remote call. The logger is extended once more
  after the gates, when the request is built; as in \<open>CreateSIPParticipantRequest\<close>
  that only decorates what \<open>Errorw\<close> writes.
\<close>

definition CreateSIPParticipant ::
  "'w packages \<Rightarrow> 'w SIPService \<Rightarrow> Context \<Rightarrow> CreateSIPParticipantRequest \<Rightarrow> 'w state
     \<Rightarrow> (error + SIPParticipantInfo) \<times> 'w state" where
  "CreateSIPParticipant pk s ctx req st0 =
     (case CreateSIPParticipantRequest pk s ctx req [] [] [] []
             (emit (logger_WithValues_call (request_log_values req)) st0) of
        (Inl err, st1) \<Rightarrow>
          (Inl err, emit (Errorw_call ''cannot create sip participant request'' err) st1)
      | (Inr ireq, st1) \<Rightarrow>
          (case (case Deadline ctx of
                   Some deadline \<Rightarrow> (time_Until pk deadline (world st1), ctx)
                 | None \<Rightarrow>
                     (30 * Second,
                      context_WithTimeout ctx (30 * Second) (time_Now pk (world st1)))) of
             (timeout, ctx') \<Rightarrow>
               (case invoke (psrpc_CreateSIPParticipant_call ctx' [] ireq timeout)
                       (psrpc_CreateSIPParticipant (psrpcClient s) ctx' [] ireq timeout) st1 of
                  (Inl err, st2) \<Rightarrow>
                    (Inl err, emit (Errorw_call ''cannot update sip participant'' err) st2)
                | (Inr resp, st2) \<Rightarrow>
                    (Inr \<lparr>ParticipantId = resp_ParticipantId resp,
                          ParticipantIdentity = resp_ParticipantIdentity resp,
                          RoomName = p_RoomName req,
                          pi_SipCallId = SipCallId ireq\<rparr>, st2))))"

section \<open>The error kinds of the spec, and predicates on traces\<close>

text \<open>
  Modelled from the spec: section 7 names the kinds of error a caller can see; the source
  has no such type. This is how the errors the service makes fall under the kinds: the
  plain errors of \<open>errors.New\<close> and \<open>fmt.Errorf\<close>, which the source raises for a
  missing trunk, a non-empty ID on create and the deprecated field, are InvalidInput. The
  kinds NotFound, ValidationConflict and RemoteCallFailure belong to errors the
  collaborators make, which the service hands on without looking at them.
\<close>

datatype error_kind = AuthorizationDenied | StoreUnavailable | InvalidInput | FromCollaborator

fun kind_of :: "error \<Rightarrow> error_kind" where
  "kind_of (TwirpAuthError err) = AuthorizationDenied"
| "kind_of ErrSIPNotConnected = StoreUnavailable"
| "kind_of (ErrorString msg) = InvalidInput"
| "kind_of (ExternalError msg) = FromCollaborator"

text \<open>
  A commit event allocates an identifier or writes to the store; a validation event has
  passed when the validator accepts the list it was called on.
\<close>

fun is_store_write :: "store_call \<Rightarrow> bool" where
  "is_store_write (StoreSIPTrunk_call info) = True"
| "is_store_write (StoreSIPInboundTrunk_call info) = True"
| "is_store_write (StoreSIPOutboundTrunk_call info) = True"
| "is_store_write (StoreSIPDispatchRule_call info) = True"
| "is_store_write c = False"

fun is_commit :: "event \<Rightarrow> bool" where
  "is_commit (guid_New_call prefix) = True"
| "is_commit (Store c) = is_store_write c"
| "is_commit e = False"

fun validation_passed :: "'w packages \<Rightarrow> event \<Rightarrow> bool" where
  "validation_passed pk (ValidateTrunks_call list) = (sip_ValidateTrunks pk list = None)"
| "validation_passed pk (ValidateDispatchRules_call list) =
     (sip_ValidateDispatchRules pk list = None)"
| "validation_passed pk e = False"

text \<open>
  \<open>commits_guarded pk ok evs\<close>: each commit event of \<open>evs\<close> has a passed validation
  event before it in \<open>evs\<close> (or \<open>ok\<close> holds from the start).
\<close>

fun commits_guarded :: "'w packages \<Rightarrow> bool \<Rightarrow> event list \<Rightarrow> bool" where
  "commits_guarded pk ok [] = True"
| "commits_guarded pk ok (e # es) =
     ((if is_commit e then ok else True) \<and> commits_guarded pk (ok \<or> validation_passed pk e) es)"

fun is_store_event :: "event \<Rightarrow> bool" where
  "is_store_event (Store c) = True"
| "is_store_event e = False"

fun is_remote_call :: "event \<Rightarrow> bool" where
  "is_remote_call (psrpc_CreateSIPParticipant_call ctx topic ireq timeout) = True"
| "is_remote_call e = False"

text \<open>The events a run adds to the trace it started with.\<close>

definition new_events :: "'w state \<Rightarrow> 'w state \<Rightarrow> event list" where
  "new_events st st' = drop (length (trace st)) (trace st')"

section \<open>An in-memory world, to run the service on\<close>

text \<open>
  Stand-ins for the collaborators, as a test of the package would supply them: a store
  that keeps lists, a counter for the identifier generators, a clock, validators that
  reject two entries sharing a number, a permission check that looks for a grant, and a
  peer that answers with a participant unless the timeout is not positive.
\<close>

record mem =
  mem_legacy :: "SIPTrunkInfo list"
  mem_inbound :: "SIPInboundTrunkInfo list"
  mem_outbound :: "SIPOutboundTrunkInfo list"
  mem_rules :: "SIPDispatchRuleInfo list"
  mem_ids :: nat
  mem_clock :: Time

definition not_found :: error where
  "not_found = ExternalError ''not found''"

definition mem_store :: "mem SIPStore" where
  "mem_store =
     \<lparr>store_ListSIPTrunk = (\<lambda>ctx w. (Inr (mem_legacy w), w)),
      store_ListSIPInboundTrunk = (\<lambda>ctx w. (Inr (mem_inbound w), w)),
      store_ListSIPOutboundTrunk = (\<lambda>ctx w. (Inr (mem_outbound w), w)),
      store_ListSIPDispatchRule = (\<lambda>ctx w. (Inr (mem_rules w), w)),
      store_LoadSIPInboundTrunk = (\<lambda>ctx i w.
        (case find (\<lambda>t. in_SipTrunkId t = i) (mem_inbound w) of
           None \<Rightarrow> Inl not_found | Some t \<Rightarrow> Inr t, w)),
      store_LoadSIPOutboundTrunk = (\<lambda>ctx i w.
        (case find (\<lambda>t. out_SipTrunkId t = i) (mem_outbound w) of
           None \<Rightarrow> Inl not_found | Some t \<Rightarrow> Inr t, w)),
      store_LoadSIPDispatchRule = (\<lambda>ctx i w.
        (case find (\<lambda>r. SipDispatchRuleId r = i) (mem_rules w) of
           None \<Rightarrow> Inl not_found | Some r \<Rightarrow> Inr r, w)),
      store_StoreSIPTrunk = (\<lambda>ctx t w. (None, w\<lparr>mem_legacy := mem_legacy w @ [t]\<rparr>)),
      store_StoreSIPInboundTrunk = (\<lambda>ctx t w. (None, w\<lparr>mem_inbound := mem_inbound w @ [t]\<rparr>)),
      store_StoreSIPOutboundTrunk = (\<lambda>ctx t w. (None, w\<lparr>mem_outbound := mem_outbound w @ [t]\<rparr>)),
      store_StoreSIPDispatchRule = (\<lambda>ctx r w. (None, w\<lparr>mem_rules := mem_rules w @ [r]\<rparr>)),
      store_DeleteSIPTrunk = (\<lambda>ctx i w.
        (None, w\<lparr>mem_legacy := filter (\<lambda>t. SipTrunkId t \<noteq> i) (mem_legacy w),
                  mem_inbound := filter (\<lambda>t. in_SipTrunkId t \<noteq> i) (mem_inbound w),
                  mem_outbound := filter (\<lambda>t. out_SipTrunkId t \<noteq> i) (mem_outbound w)\<rparr>)),
      store_DeleteSIPDispatchRule = (\<lambda>ctx r w.
        (None, w\<lparr>mem_rules :=
                    filter (\<lambda>x. SipDispatchRuleId x \<noteq> SipDispatchRuleId r) (mem_rules w)\<rparr>))\<rparr>"

definition mem_client :: "mem SIPClient" where
  "mem_client =
     \<lparr>psrpc_CreateSIPParticipant = (\<lambda>ctx topic ireq timeout w.
        (if timeout \<le> 0 then Inl (ExternalError ''request timed out'')
         else Inr \<lparr>resp_ParticipantId = ''PA_1'',
                   resp_ParticipantIdentity = ''sip_'' @ ireq_CallTo ireq\<rparr>, w))\<rparr>"

definition mem_service :: "mem SIPService" where
  "mem_service = \<lparr>nodeID = ''ND_1'', psrpcClient = mem_client, store = Some mem_store\<rparr>"

definition permission_denied :: error where
  "permission_denied = ExternalError ''permissions denied''"

definition mem_packages :: "mem packages" where
  "mem_packages =
     \<lparr>EnsureSIPAdminPermission = (\<lambda>ctx.
        if ''sip.admin'' \<in> set (Grants ctx) then None else Some permission_denied),
      EnsureSIPCallPermission = (\<lambda>ctx.
        if ''sip.call'' \<in> set (Grants ctx) then None else Some permission_denied),
      sip_ValidateTrunks = (\<lambda>list.
        if distinct (concat (map in_Numbers list)) then None
        else Some (ExternalError ''conflicting inbound trunks'')),
      sip_ValidateDispatchRules = (\<lambda>list.
        if distinct (concat (map dr_InboundNumbers list)) then None
        else Some (ExternalError ''conflicting dispatch rules'')),
      guid_New = (\<lambda>prefix w.
        (prefix @ replicate (Suc (mem_ids w)) CHR ''x'', w\<lparr>mem_ids := Suc (mem_ids w)\<rparr>)),
      sip_NewCallID = (\<lambda>w.
        (''SCL_'' @ replicate (Suc (mem_ids w)) CHR ''x'', w\<lparr>mem_ids := Suc (mem_ids w)\<rparr>)),
      utils_SIPTrunkPrefix = ''ST_'',
      utils_SIPDispatchRulePrefix = ''SDR_'',
      AsInbound = (\<lambda>t.
        \<lparr>in_SipTrunkId = SipTrunkId t, in_Name = Name t, in_Metadata = Metadata t,
         in_Numbers = (if OutboundNumber t = [] then [] else [OutboundNumber t]),
         in_AllowedAddresses = InboundAddresses t, in_AllowedNumbers = InboundNumbers t,
         in_AuthUsername = InboundUsername t, in_AuthPassword = InboundPassword t\<rparr>),
      rpc_NewCreateSIPParticipantRequest = (\<lambda>projectID callID host wsUrl token req trunk.
        if out_Numbers trunk = [] then Inl (ExternalError ''no numbers on outbound trunk'')
        else Inr \<lparr>SipCallId = callID, Number = hd (out_Numbers trunk),
                  Address = out_Address trunk, ireq_ProjectId = projectID,
                  ireq_Hostname = host, ireq_WsUrl = wsUrl, ireq_Token = token,
                  ireq_SipTrunkId = p_SipTrunkId req, ireq_CallTo = p_SipCallTo req,
                  ireq_RoomName = p_RoomName req\<rparr>),
      time_Now = mem_clock\<rparr>"

definition admin_ctx :: Context where
  "admin_ctx = \<lparr>Deadline = None, Grants = [''sip.admin'', ''sip.call'']\<rparr>"

definition deadline_ctx :: Context where
  "deadline_ctx = admin_ctx\<lparr>Deadline := Some (1005 * Second)\<rparr>"

definition anonymous_ctx :: Context where
  "anonymous_ctx = \<lparr>Deadline = None, Grants = []\<rparr>"

definition office_inbound :: SIPInboundTrunkInfo where
  "office_inbound =
     \<lparr>in_SipTrunkId = ''ST_office'', in_Name = ''office'', in_Metadata = [],
      in_Numbers = [''+15550100''], in_AllowedAddresses = [], in_AllowedNumbers = [],
      in_AuthUsername = [], in_AuthPassword = []\<rparr>"

definition carrier_outbound :: SIPOutboundTrunkInfo where
  "carrier_outbound =
     \<lparr>out_SipTrunkId = ''ST_carrier'', out_Name = ''carrier'', out_Metadata = [],
      out_Address = ''sip.carrier.example'', out_Numbers = [''+15550199''],
      out_AuthUsername = ''user'', out_AuthPassword = ''secret''\<rparr>"

definition office_legacy :: SIPTrunkInfo where
  "office_legacy =
     SIPTrunkInfo_zero\<lparr>SipTrunkId := ''ST_legacy'', Name := ''old office'',
       OutboundNumber := ''+15550123''\<rparr>"

definition office_rule :: SIPDispatchRuleInfo where
  "office_rule =
     \<lparr>SipDispatchRuleId = ''SDR_office'', Rule = Some ''direct:lobby'',
      TrunkIds = [''ST_office''], dr_InboundNumbers = [''+15550100''],
      HidePhoneNumber = False, dr_Name = ''lobby'', dr_Metadata = [], Attributes = []\<rparr>"

definition mem0 :: mem where
  "mem0 =
     \<lparr>mem_legacy = [office_legacy], mem_inbound = [office_inbound],
      mem_outbound = [carrier_outbound], mem_rules = [office_rule], mem_ids = 0,
      mem_clock = 1000 * Second\<rparr>"

definition start :: "mem state" where
  "start = \<lparr>world = mem0, trace = []\<rparr>"

definition legacy_regex_request :: CreateSIPTrunkRequest where
  "legacy_regex_request =
     \<lparr>req_InboundAddresses = [], req_OutboundAddress = [], req_OutboundNumber = ''+15550111'',
      req_InboundNumbersRegex = [''+1555.*''], req_InboundNumbers = [],
      req_InboundUsername = [], req_InboundPassword = [], req_OutboundUsername = [],
      req_OutboundPassword = [], req_Name = ''branch'', req_Metadata = []\<rparr>"

definition fresh_trunk_request :: CreateSIPTrunkRequest where
  "fresh_trunk_request = legacy_regex_request\<lparr>req_InboundNumbersRegex := []\<rparr>"

definition conflicting_trunk_request :: CreateSIPTrunkRequest where
  "conflicting_trunk_request = fresh_trunk_request\<lparr>req_OutboundNumber := ''+15550100''\<rparr>"

definition fresh_inbound :: SIPInboundTrunkInfo where
  "fresh_inbound = office_inbound\<lparr>in_SipTrunkId := [], in_Numbers := [''+15550111'']\<rparr>"

definition duplicate_outbound :: SIPOutboundTrunkInfo where
  "duplicate_outbound = carrier_outbound\<lparr>out_SipTrunkId := []\<rparr>"

definition conflicting_rule_request :: CreateSIPDispatchRuleRequest where
  "conflicting_rule_request =
     \<lparr>rreq_Rule = Some ''direct:annex'', rreq_TrunkIds = [''ST_office''],
      rreq_InboundNumbers = [''+15550100''], rreq_HidePhoneNumber = False,
      rreq_Name = ''annex'', rreq_Metadata = [], rreq_Attributes = []\<rparr>"

definition participant_request :: CreateSIPParticipantRequest where
  "participant_request =
     \<lparr>p_SipTrunkId = ''ST_carrier'', p_SipCallTo = ''+15550142'', p_RoomName = ''lobby''\<rparr>"

definition built_request :: InternalCreateSIPParticipantRequest where
  "built_request =
     \<lparr>SipCallId = ''SCL_x'', Number = ''+15550199'', Address = ''sip.carrier.example'',
      ireq_ProjectId = [], ireq_Hostname = [], ireq_WsUrl = [], ireq_Token = [],
      ireq_SipTrunkId = ''ST_carrier'', ireq_CallTo = ''+15550142'', ireq_RoomName = ''lobby''\<rparr>"

section \<open>The two gates of every method\<close>

text \<open>
  \<open>gated verdict connected check logged run\<close>: the method \<open>run\<close> starts with the
  permission check \<open>check\<close>, whose result is \<open>verdict\<close>. If the check fails, or passes
  while the store is nil (\<open>connected\<close> is false), the method returns the matching error,
  leaves the world as it was, and its only events are the check and what it logs
  (\<open>logged\<close>), none of them a store call or the remote call.
\<close>

definition gated ::
  "error option \<Rightarrow> bool \<Rightarrow> event \<Rightarrow> (error \<Rightarrow> event list)
     \<Rightarrow> ('w state \<Rightarrow> (error + 'a) \<times> 'w state) \<Rightarrow> bool" where
  "gated verdict connected check logged run \<longleftrightarrow>
     (\<forall>st.
        (\<exists>rest. trace (snd (run st)) = trace st @ check # rest) \<and>
        (\<forall>err. verdict = Some err \<longrightarrow>
           run st = (Inl (TwirpAuthError err),
                     st\<lparr>trace := trace st @ check # logged (TwirpAuthError err)\<rparr>)) \<and>
        (verdict = None \<and> \<not> connected \<longrightarrow>
           run st = (Inl ErrSIPNotConnected,
                     st\<lparr>trace := trace st @ check # logged ErrSIPNotConnected\<rparr>))) \<and>
     \<not> is_store_event check \<and> \<not> is_remote_call check \<and>
     (\<forall>err. list_all (\<lambda>e. \<not> is_store_event e \<and> \<not> is_remote_call e) (logged err))"

text \<open>
  \<open>gated_after before verdict connected check logged run\<close>: the same, for a method
  whose run starts with the events \<open>before\<close> and then makes the permission check;
  none of \<open>before\<close> is a store call or the remote call.
\<close>

definition gated_after ::
  "event list \<Rightarrow> error option \<Rightarrow> bool \<Rightarrow> event \<Rightarrow> (error \<Rightarrow> event list)
     \<Rightarrow> ('w state \<Rightarrow> (error + 'a) \<times> 'w state) \<Rightarrow> bool" where
  "gated_after before verdict connected check logged run \<longleftrightarrow>
     (\<forall>st.
        (\<exists>rest. trace (snd (run st)) = trace st @ before @ check # rest) \<and>
        (\<forall>err. verdict = Some err \<longrightarrow>
           run st = (Inl (TwirpAuthError err),
                     st\<lparr>trace := trace st @ before @ check # logged (TwirpAuthError err)\<rparr>)) \<and>
        (verdict = None \<and> \<not> connected \<longrightarrow>
           run st = (Inl ErrSIPNotConnected,
                     st\<lparr>trace := trace st @ before @ check # logged ErrSIPNotConnected\<rparr>))) \<and>
     \<not> is_store_event check \<and> \<not> is_remote_call check \<and>
     list_all (\<lambda>e. \<not> is_store_event e \<and> \<not> is_remote_call e) before \<and>
     (\<forall>err. list_all (\<lambda>e. \<not> is_store_event e \<and> \<not> is_remote_call e) (logged err))"

section \<open>Properties\<close>

subsection \<open>Helper lemmas\<close>

lemmas run_simps = emit_def invoke_def Let_def

lemma gated_CreateSIPTrunk:
  "gated (EnsureSIPAdminPermission pk ctx) (store s \<noteq> None) EnsureSIPAdminPermission_call
     (\<lambda>err. []) (CreateSIPTrunk pk s ctx req)"
  unfolding gated_def CreateSIPTrunk_def
  by (simp add: run_simps split: prod.splits sum.splits option.splits)

lemma gated_CreateSIPInboundTrunk:
  "gated (EnsureSIPAdminPermission pk ctx) (store s \<noteq> None) EnsureSIPAdminPermission_call
     (\<lambda>err. []) (CreateSIPInboundTrunk pk s ctx req)"
  unfolding gated_def CreateSIPInboundTrunk_def
  by (simp add: run_simps split: prod.splits sum.splits option.splits)

lemma gated_CreateSIPOutboundTrunk:
  "gated (EnsureSIPAdminPermission pk ctx) (store s \<noteq> None) EnsureSIPAdminPermission_call
     (\<lambda>err. []) (CreateSIPOutboundTrunk pk s ctx req)"
  unfolding gated_def CreateSIPOutboundTrunk_def
  by (simp add: run_simps split: prod.splits sum.splits option.splits)

lemma gated_GetSIPInboundTrunk:
  "gated (EnsureSIPAdminPermission pk ctx) (store s \<noteq> None) EnsureSIPAdminPermission_call
     (\<lambda>err. []) (GetSIPInboundTrunk pk s ctx req)"
  unfolding gated_def GetSIPInboundTrunk_def
  by (simp add: run_simps split: prod.splits sum.splits option.splits)

lemma gated_GetSIPOutboundTrunk:
  "gated (EnsureSIPAdminPermission pk ctx) (store s \<noteq> None) EnsureSIPAdminPermission_call
     (\<lambda>err. []) (GetSIPOutboundTrunk pk s ctx req)"
  unfolding gated_def GetSIPOutboundTrunk_def
  by (simp add: run_simps split: prod.splits sum.splits option.splits)

lemma gated_ListSIPTrunk:
  "gated (EnsureSIPAdminPermission pk ctx) (store s \<noteq> None) EnsureSIPAdminPermission_call
     (\<lambda>err. []) (ListSIPTrunk pk s ctx req)"
  unfolding gated_def ListSIPTrunk_def
  by (simp add: run_simps split: prod.splits sum.splits option.splits)

lemma gated_ListSIPInboundTrunk:
  "gated (EnsureSIPAdminPermission pk ctx) (store s \<noteq> None) EnsureSIPAdminPermission_call
     (\<lambda>err. []) (ListSIPInboundTrunk pk s ctx req)"
  unfolding gated_def ListSIPInboundTrunk_def
  by (simp add: run_simps split: prod.splits sum.splits option.splits)

lemma gated_ListSIPOutboundTrunk:
  "gated (EnsureSIPAdminPermission pk ctx) (store s \<noteq> None) EnsureSIPAdminPermission_call
     (\<lambda>err. []) (ListSIPOutboundTrunk pk s ctx req)"
  unfolding gated_def ListSIPOutboundTrunk_def
  by (simp add: run_simps split: prod.splits sum.splits option.splits)

lemma gated_DeleteSIPTrunk:
  "gated (EnsureSIPAdminPermission pk ctx) (store s \<noteq> None) EnsureSIPAdminPermission_call
     (\<lambda>err. []) (DeleteSIPTrunk pk s ctx req)"
  unfolding gated_def DeleteSIPTrunk_def
  by (simp add: run_simps split: prod.splits sum.splits option.splits)

lemma gated_CreateSIPDispatchRule:
  "gated (EnsureSIPAdminPermission pk ctx) (store s \<noteq> None) EnsureSIPAdminPermission_call
     (\<lambda>err. []) (CreateSIPDispatchRule pk s ctx req)"
  unfolding gated_def CreateSIPDispatchRule_def
  by (simp add: run_simps split: prod.splits sum.splits option.splits)

lemma gated_ListSIPDispatchRule:
  "gated (EnsureSIPAdminPermission pk ctx) (store s \<noteq> None) EnsureSIPAdminPermission_call
     (\<lambda>err. []) (ListSIPDispatchRule pk s ctx req)"
  unfolding gated_def ListSIPDispatchRule_def
  by (simp add: run_simps split: prod.splits sum.splits option.splits)

lemma gated_DeleteSIPDispatchRule:
  "gated (EnsureSIPAdminPermission pk ctx) (store s \<noteq> None) EnsureSIPAdminPermission_call
     (\<lambda>err. []) (DeleteSIPDispatchRule pk s ctx req)"
  unfolding gated_def DeleteSIPDispatchRule_def
  by (simp add: run_simps split: prod.splits sum.splits option.splits)

lemma gated_CreateSIPParticipantRequest:
  "gated (EnsureSIPCallPermission pk ctx) (store s \<noteq> None) EnsureSIPCallPermission_call
     (\<lambda>err. []) (CreateSIPParticipantRequest pk s ctx req projectID host wsUrl token)"
  unfolding gated_def CreateSIPParticipantRequest_def
  by (simp add: run_simps split: prod.splits sum.splits option.splits)

lemma gated_CreateSIPParticipant:
  "gated_after [logger_WithValues_call (request_log_values req)]
     (EnsureSIPCallPermission pk ctx) (store s \<noteq> None) EnsureSIPCallPermission_call
     (\<lambda>err. [Errorw_call ''cannot create sip participant request'' err])
     (CreateSIPParticipant pk s ctx req)"
  unfolding gated_after_def CreateSIPParticipant_def CreateSIPParticipantRequest_def
  by (auto simp add: run_simps split: prod.splits sum.splits option.splits)

lemma authorization_kind: "kind_of e = AuthorizationDenied \<longleftrightarrow> (\<exists>err. e = TwirpAuthError err)"
  by (cases e) simp_all

text \<open>
  Claim C5, as the source has it. Every method of the service but one evaluates the
  permission check before anything else: the check is the first event of every run. The
  one is \<open>CreateSIPParticipant\<close>, which first builds its logger from three fields of
  the request and then reaches both gates through \<open>CreateSIPParticipantRequest\<close>;
  nothing but that logger call precedes its check. In every method, if the check
  fails, the method returns the authorization error around the check's error, an error of
  a kind no other error of the service has, and neither the store nor the remote peer is
  called. If the check passes and the store is nil, the method returns
  \<open>ErrSIPNotConnected\<close>, again before any store or remote call.
  \<open>CreateSIPParticipant\<close> logs the error it gets back.
\<close>

theorem gates_come_first_but_for_the_logger:
  "gated (EnsureSIPAdminPermission pk ctx) (store s \<noteq> None) EnsureSIPAdminPermission_call
     (\<lambda>err. []) (CreateSIPTrunk pk s ctx create_trunk) \<and>
   gated (EnsureSIPAdminPermission pk ctx) (store s \<noteq> None) EnsureSIPAdminPermission_call
     (\<lambda>err. []) (CreateSIPInboundTrunk pk s ctx create_inbound) \<and>
   gated (EnsureSIPAdminPermission pk ctx) (store s \<noteq> None) EnsureSIPAdminPermission_call
     (\<lambda>err. []) (CreateSIPOutboundTrunk pk s ctx create_outbound) \<and>
   gated (EnsureSIPAdminPermission pk ctx) (store s \<noteq> None) EnsureSIPAdminPermission_call
     (\<lambda>err. []) (GetSIPInboundTrunk pk s ctx get_inbound) \<and>
   gated (EnsureSIPAdminPermission pk ctx) (store s \<noteq> None) EnsureSIPAdminPermission_call
     (\<lambda>err. []) (GetSIPOutboundTrunk pk s ctx get_outbound) \<and>
   gated (EnsureSIPAdminPermission pk ctx) (store s \<noteq> None) EnsureSIPAdminPermission_call
     (\<lambda>err. []) (ListSIPTrunk pk s ctx ()) \<and>
   gated (EnsureSIPAdminPermission pk ctx) (store s \<noteq> None) EnsureSIPAdminPermission_call
     (\<lambda>err. []) (ListSIPInboundTrunk pk s ctx ()) \<and>
   gated (EnsureSIPAdminPermission pk ctx) (store s \<noteq> None) EnsureSIPAdminPermission_call
     (\<lambda>err. []) (ListSIPOutboundTrunk pk s ctx ()) \<and>
   gated (EnsureSIPAdminPermission pk ctx) (store s \<noteq> None) EnsureSIPAdminPermission_call
     (\<lambda>err. []) (DeleteSIPTrunk pk s ctx delete_trunk) \<and>
   gated (EnsureSIPAdminPermission pk ctx) (store s \<noteq> None) EnsureSIPAdminPermission_call
     (\<lambda>err. []) (CreateSIPDispatchRule pk s ctx create_rule) \<and>
   gated (EnsureSIPAdminPermission pk ctx) (store s \<noteq> None) EnsureSIPAdminPermission_call
     (\<lambda>err. []) (ListSIPDispatchRule pk s ctx ()) \<and>
   gated (EnsureSIPAdminPermission pk ctx) (store s \<noteq> None) EnsureSIPAdminPermission_call
     (\<lambda>err. []) (DeleteSIPDispatchRule pk s ctx delete_rule) \<and>
   gated (EnsureSIPCallPermission pk ctx) (store s \<noteq> None) EnsureSIPCallPermission_call
     (\<lambda>err. []) (CreateSIPParticipantRequest pk s ctx participant projectID host wsUrl token) \<and>
   gated_after [logger_WithValues_call (request_log_values participant)]
     (EnsureSIPCallPermission pk ctx) (store s \<noteq> None) EnsureSIPCallPermission_call
     (\<lambda>err. [Errorw_call ''cannot create sip participant request'' err])
     (CreateSIPParticipant pk s ctx participant) \<and>
   (\<forall>e. kind_of e = AuthorizationDenied \<longleftrightarrow> (\<exists>err. e = TwirpAuthError err)) \<and>
   kind_of ErrSIPNotConnected = StoreUnavailable"
  by (intro conjI allI gated_CreateSIPTrunk gated_CreateSIPInboundTrunk
      gated_CreateSIPOutboundTrunk gated_GetSIPInboundTrunk gated_GetSIPOutboundTrunk
      gated_ListSIPTrunk gated_ListSIPInboundTrunk gated_ListSIPOutboundTrunk
      gated_DeleteSIPTrunk gated_CreateSIPDispatchRule gated_ListSIPDispatchRule
      gated_DeleteSIPDispatchRule gated_CreateSIPParticipantRequest
      gated_CreateSIPParticipant authorization_kind kind_of.simps)

theorem gates_come_first_but_for_the_logger_witness:
  "CreateSIPTrunk mem_packages mem_service anonymous_ctx fresh_trunk_request start =
     (Inl (TwirpAuthError permission_denied), start\<lparr>trace := [EnsureSIPAdminPermission_call]\<rparr>) \<and>
   CreateSIPParticipant mem_packages (mem_service\<lparr>store := None\<rparr>) admin_ctx participant_request start =
     (Inl ErrSIPNotConnected,
      start\<lparr>trace := [logger_WithValues_call (request_log_values participant_request),
                      EnsureSIPCallPermission_call,
                      Errorw_call ''cannot create sip participant request'' ErrSIPNotConnected]\<rparr>)"
proof -
  have denied: "EnsureSIPAdminPermission mem_packages anonymous_ctx = Some permission_denied"
    by (simp add: mem_packages_def anonymous_ctx_def)
  have allowed: "EnsureSIPCallPermission mem_packages admin_ctx = None"
    by (simp add: mem_packages_def admin_ctx_def)
  have empty: "trace start = []"
    by (simp add: start_def)
  from gates_come_first_but_for_the_logger [where pk = mem_packages and s = mem_service
      and ctx = anonymous_ctx and create_trunk = fresh_trunk_request]
  have "gated (EnsureSIPAdminPermission mem_packages anonymous_ctx) (store mem_service \<noteq> None)
      EnsureSIPAdminPermission_call (\<lambda>err. [])
      (CreateSIPTrunk mem_packages mem_service anonymous_ctx fresh_trunk_request)"
    by simp
  then have first: "CreateSIPTrunk mem_packages mem_service anonymous_ctx fresh_trunk_request start =
     (Inl (TwirpAuthError permission_denied), start\<lparr>trace := [EnsureSIPAdminPermission_call]\<rparr>)"
    using denied empty by (simp add: gated_def)
  from gates_come_first_but_for_the_logger [where pk = mem_packages
      and s = "mem_service\<lparr>store := None\<rparr>" and ctx = admin_ctx
      and participant = participant_request]
  have "gated_after [logger_WithValues_call (request_log_values participant_request)]
      (EnsureSIPCallPermission mem_packages admin_ctx)
      (store (mem_service\<lparr>store := None\<rparr>) \<noteq> None) EnsureSIPCallPermission_call
      (\<lambda>err. [Errorw_call ''cannot create sip participant request'' err])
      (CreateSIPParticipant mem_packages (mem_service\<lparr>store := None\<rparr>) admin_ctx participant_request)"
    by simp
  then have second: "CreateSIPParticipant mem_packages (mem_service\<lparr>store := None\<rparr>) admin_ctx
      participant_request start =
     (Inl ErrSIPNotConnected,
      start\<lparr>trace := [logger_WithValues_call (request_log_values participant_request),
                      EnsureSIPCallPermission_call,
                      Errorw_call ''cannot create sip participant request'' ErrSIPNotConnected]\<rparr>)"
    using allowed empty by (simp add: gated_after_def)
  from first second show ?thesis by simp
qed

text \<open>
  The claim as stated (the check before any other work, in every method) does not hold of
  \<open>CreateSIPParticipant\<close>: the first event of its run is the logger call, and the
  permission check is the second.
\<close>

theorem gates_come_first_counterexample:
  "trace (snd (CreateSIPParticipant mem_packages mem_service anonymous_ctx participant_request
                 start)) =
     [logger_WithValues_call
        [(''roomName'', ''lobby''), (''sipTrunk'', ''ST_carrier''), (''toUser'', ''+15550142'')],
      EnsureSIPCallPermission_call,
      Errorw_call ''cannot create sip participant request'' (TwirpAuthError permission_denied)] \<and>
   hd (trace (snd (CreateSIPParticipant mem_packages mem_service anonymous_ctx
                     participant_request start)))
     \<noteq> EnsureSIPCallPermission_call"
  by (simp add: CreateSIPParticipant_def CreateSIPParticipantRequest_def run_simps
      request_log_values_def participant_request_def mem_packages_def anonymous_ctx_def
      start_def)

subsection \<open>Input checks\<close>

text \<open>
  Claim C2, as the source has it. Of the create requests only \<open>CreateSIPTrunkRequest\<close>
  has the legacy field \<open>InboundNumbersRegex\<close>. When it is non-empty and both gates
  pass (the permission check succeeds and the store is not nil), \<open>CreateSIPTrunk\<close>
  returns the plain error whose message names the replacement field \<open>InboundNumbers\<close>,
  an InvalidInput error, whatever the other fields hold. Whether or not the gates pass,
  the run fails and its only event is the permission check: nothing is listed, validated,
  allocated or stored, and the world is as before.
\<close>

theorem deprecated_regex_rejected_behind_gates:
  assumes "req_InboundNumbersRegex req \<noteq> []"
  shows
    "(EnsureSIPAdminPermission pk ctx = None \<and> store s \<noteq> None \<longrightarrow>
        CreateSIPTrunk pk s ctx req st =
          (Inl (ErrorString
                  ''Trunks with InboundNumbersRegex are deprecated. Use InboundNumbers instead.''),
           st\<lparr>trace := trace st @ [EnsureSIPAdminPermission_call]\<rparr>)) \<and>
     kind_of (ErrorString
                ''Trunks with InboundNumbersRegex are deprecated. Use InboundNumbers instead.'')
       = InvalidInput \<and>
     (\<exists>err. CreateSIPTrunk pk s ctx req st =
              (Inl err, st\<lparr>trace := trace st @ [EnsureSIPAdminPermission_call]\<rparr>))"
  using assms unfolding CreateSIPTrunk_def
  by (auto simp add: run_simps split: option.splits)

theorem deprecated_regex_rejected_behind_gates_witness:
  "CreateSIPTrunk mem_packages mem_service admin_ctx legacy_regex_request start =
     (Inl (ErrorString
             ''Trunks with InboundNumbersRegex are deprecated. Use InboundNumbers instead.''),
      start\<lparr>trace := [EnsureSIPAdminPermission_call]\<rparr>)"
proof -
  have regex: "req_InboundNumbersRegex legacy_regex_request \<noteq> []"
    by (simp add: legacy_regex_request_def)
  have gates: "EnsureSIPAdminPermission mem_packages admin_ctx = None \<and> store mem_service \<noteq> None"
    by (simp add: mem_packages_def admin_ctx_def mem_service_def)
  show ?thesis
    using deprecated_regex_rejected_behind_gates
      [OF regex, of mem_packages admin_ctx mem_service start] gates
    by (simp add: start_def)
qed

text \<open>
  The claim as stated (every request with a non-empty legacy field fails with
  InvalidInput) does not hold: the two gates come first, so a caller without the admin
  grant gets the authorization error, and a service without a store gets
  \<open>ErrSIPNotConnected\<close>.
\<close>

theorem deprecated_regex_counterexample:
  "req_InboundNumbersRegex legacy_regex_request \<noteq> [] \<and>
   fst (CreateSIPTrunk mem_packages mem_service anonymous_ctx legacy_regex_request start)
     = Inl (TwirpAuthError permission_denied) \<and>
   kind_of (TwirpAuthError permission_denied) \<noteq> InvalidInput \<and>
   fst (CreateSIPTrunk mem_packages (mem_service\<lparr>store := None\<rparr>) admin_ctx
          legacy_regex_request start)
     = Inl ErrSIPNotConnected \<and>
   kind_of ErrSIPNotConnected \<noteq> InvalidInput"
  by (simp add: CreateSIPTrunk_def run_simps legacy_regex_request_def mem_packages_def
      anonymous_ctx_def admin_ctx_def mem_service_def)

text \<open>
  Claim C6, as the source has it. When both gates pass, \<open>CreateSIPInboundTrunk\<close> and
  \<open>CreateSIPOutboundTrunk\<close> reject a request with no trunk object, and a request
  whose trunk already has an ID, with a plain error (an InvalidInput error); the only
  event of the run is the permission check, so nothing is validated, allocated or stored.
\<close>

theorem malformed_trunk_rejected_behind_gates:
  assumes "EnsureSIPAdminPermission pk ctx = None" and "store s \<noteq> None"
  shows
    "(in_Trunk inbound = None \<longrightarrow>
        CreateSIPInboundTrunk pk s ctx inbound st =
          (Inl (ErrorString ''trunk info is required''),
           st\<lparr>trace := trace st @ [EnsureSIPAdminPermission_call]\<rparr>)) \<and>
     (\<forall>info. in_Trunk inbound = Some info \<and> in_SipTrunkId info \<noteq> [] \<longrightarrow>
        CreateSIPInboundTrunk pk s ctx inbound st =
          (Inl (ErrorString ''trunk ID must be empty''),
           st\<lparr>trace := trace st @ [EnsureSIPAdminPermission_call]\<rparr>)) \<and>
     (out_Trunk outbound = None \<longrightarrow>
        CreateSIPOutboundTrunk pk s ctx outbound st =
          (Inl (ErrorString ''trunk info is required''),
           st\<lparr>trace := trace st @ [EnsureSIPAdminPermission_call]\<rparr>)) \<and>
     (\<forall>info. out_Trunk outbound = Some info \<and> out_SipTrunkId info \<noteq> [] \<longrightarrow>
        CreateSIPOutboundTrunk pk s ctx outbound st =
          (Inl (ErrorString ''trunk ID must be empty''),
           st\<lparr>trace := trace st @ [EnsureSIPAdminPermission_call]\<rparr>)) \<and>
     (\<forall>msg. kind_of (ErrorString msg) = InvalidInput)"
  using assms unfolding CreateSIPInboundTrunk_def CreateSIPOutboundTrunk_def
  by (auto simp add: run_simps split: option.splits)

theorem malformed_trunk_rejected_behind_gates_witness:
  "CreateSIPInboundTrunk mem_packages mem_service admin_ctx \<lparr>in_Trunk = None\<rparr> start =
     (Inl (ErrorString ''trunk info is required''),
      start\<lparr>trace := [EnsureSIPAdminPermission_call]\<rparr>) \<and>
   CreateSIPInboundTrunk mem_packages mem_service admin_ctx
       \<lparr>in_Trunk = Some office_inbound\<rparr> start =
     (Inl (ErrorString ''trunk ID must be empty''),
      start\<lparr>trace := [EnsureSIPAdminPermission_call]\<rparr>) \<and>
   CreateSIPOutboundTrunk mem_packages mem_service admin_ctx \<lparr>out_Trunk = None\<rparr> start =
     (Inl (ErrorString ''trunk info is required''),
      start\<lparr>trace := [EnsureSIPAdminPermission_call]\<rparr>) \<and>
   CreateSIPOutboundTrunk mem_packages mem_service admin_ctx
       \<lparr>out_Trunk = Some carrier_outbound\<rparr> start =
     (Inl (ErrorString ''trunk ID must be empty''),
      start\<lparr>trace := [EnsureSIPAdminPermission_call]\<rparr>)"
proof -
  have perm: "EnsureSIPAdminPermission mem_packages admin_ctx = None"
    by (simp add: mem_packages_def admin_ctx_def)
  have conn: "store mem_service \<noteq> None"
    by (simp add: mem_service_def)
  show ?thesis
    using malformed_trunk_rejected_behind_gates [OF perm conn,
        of "\<lparr>in_Trunk = None\<rparr>" start "\<lparr>out_Trunk = None\<rparr>"]
      malformed_trunk_rejected_behind_gates [OF perm conn,
        of "\<lparr>in_Trunk = Some office_inbound\<rparr>" start "\<lparr>out_Trunk = Some carrier_outbound\<rparr>"]
    by (simp add: start_def office_inbound_def carrier_outbound_def)
qed

text \<open>
  The claim as stated does not hold for a caller the gates stop: such a request fails
  with the authorization error or with \<open>ErrSIPNotConnected\<close>, not with InvalidInput.
\<close>

theorem malformed_trunk_counterexample:
  "in_SipTrunkId office_inbound \<noteq> [] \<and>
   fst (CreateSIPInboundTrunk mem_packages mem_service anonymous_ctx
          \<lparr>in_Trunk = Some office_inbound\<rparr> start)
     = Inl (TwirpAuthError permission_denied) \<and>
   fst (CreateSIPOutboundTrunk mem_packages mem_service anonymous_ctx
          \<lparr>out_Trunk = None\<rparr> start)
     = Inl (TwirpAuthError permission_denied) \<and>
   kind_of (TwirpAuthError permission_denied) \<noteq> InvalidInput \<and>
   fst (CreateSIPOutboundTrunk mem_packages (mem_service\<lparr>store := None\<rparr>) admin_ctx
          \<lparr>out_Trunk = None\<rparr> start)
     = Inl ErrSIPNotConnected \<and>
   kind_of ErrSIPNotConnected \<noteq> InvalidInput"
  by (simp add: CreateSIPInboundTrunk_def CreateSIPOutboundTrunk_def run_simps
      office_inbound_def mem_packages_def anonymous_ctx_def admin_ctx_def mem_service_def)

subsection \<open>Creating with validation\<close>

lemma CreateSIPTrunk_validated:
  "(EnsureSIPAdminPermission pk ctx = None \<and> store s = Some sto \<and> req_InboundNumbersRegex trunk_req = [] \<and>
    store_ListSIPInboundTrunk sto ctx (world st) = (Inr trunks, w1) \<longrightarrow>
      SipTrunkId (trunk_of_request trunk_req) = [] \<and>
      (\<forall>err. sip_ValidateTrunks pk (trunks @ [AsInbound pk (trunk_of_request trunk_req)]) = Some err \<longrightarrow>
         CreateSIPTrunk pk s ctx trunk_req st =
           (Inl err,
            st\<lparr>world := w1,
               trace := trace st @
                 [EnsureSIPAdminPermission_call, Store ListSIPInboundTrunk_call,
                  ValidateTrunks_call (trunks @ [AsInbound pk (trunk_of_request trunk_req)])]\<rparr>)) \<and>
      (sip_ValidateTrunks pk (trunks @ [AsInbound pk (trunk_of_request trunk_req)]) = None \<longrightarrow>
         (case guid_New pk (utils_SIPTrunkPrefix pk) w1 of
            (new_id, w2) \<Rightarrow>
              (case store_StoreSIPTrunk sto ctx ((trunk_of_request trunk_req)\<lparr>SipTrunkId := new_id\<rparr>) w2 of
                 (res, w3) \<Rightarrow>
                   CreateSIPTrunk pk s ctx trunk_req st =
                     (case res of
                        Some err \<Rightarrow> Inl err
                      | None \<Rightarrow> Inr ((trunk_of_request trunk_req)\<lparr>SipTrunkId := new_id\<rparr>),
                      st\<lparr>world := w3,
                         trace := trace st @
                           [EnsureSIPAdminPermission_call, Store ListSIPInboundTrunk_call,
                            ValidateTrunks_call (trunks @ [AsInbound pk (trunk_of_request trunk_req)]),
                            guid_New_call (utils_SIPTrunkPrefix pk),
                            Store (StoreSIPTrunk_call
                                     ((trunk_of_request trunk_req)\<lparr>SipTrunkId := new_id\<rparr>))]\<rparr>)))))"
  unfolding CreateSIPTrunk_def
  by (auto simp add: run_simps trunk_of_request_def split: prod.splits option.splits)

lemma CreateSIPInboundTrunk_validated:
  "(EnsureSIPAdminPermission pk ctx = None \<and> store s = Some sto \<and> in_Trunk inbound_req = Some info \<and> in_SipTrunkId info = [] \<and>
    store_ListSIPInboundTrunk sto ctx (world st) = (Inr trunks, w1) \<longrightarrow>
      in_SipTrunkId info = [] \<and>
      (\<forall>err. sip_ValidateTrunks pk (trunks @ [info]) = Some err \<longrightarrow>
         CreateSIPInboundTrunk pk s ctx inbound_req st =
           (Inl err,
            st\<lparr>world := w1,
               trace := trace st @
                 [EnsureSIPAdminPermission_call, Store ListSIPInboundTrunk_call,
                  ValidateTrunks_call (trunks @ [info])]\<rparr>)) \<and>
      (sip_ValidateTrunks pk (trunks @ [info]) = None \<longrightarrow>
         (case guid_New pk (utils_SIPTrunkPrefix pk) w1 of
            (new_id, w2) \<Rightarrow>
              (case store_StoreSIPInboundTrunk sto ctx (info\<lparr>in_SipTrunkId := new_id\<rparr>) w2 of
                 (res, w3) \<Rightarrow>
                   CreateSIPInboundTrunk pk s ctx inbound_req st =
                     (case res of
                        Some err \<Rightarrow> Inl err
                      | None \<Rightarrow> Inr (info\<lparr>in_SipTrunkId := new_id\<rparr>),
                      st\<lparr>world := w3,
                         trace := trace st @
                           [EnsureSIPAdminPermission_call, Store ListSIPInboundTrunk_call,
                            ValidateTrunks_call (trunks @ [info]),
                            guid_New_call (utils_SIPTrunkPrefix pk),
                            Store (StoreSIPInboundTrunk_call
                                     (info\<lparr>in_SipTrunkId := new_id\<rparr>))]\<rparr>)))))"
  unfolding CreateSIPInboundTrunk_def
  by (auto simp add: run_simps split: prod.splits option.splits)

lemma CreateSIPDispatchRule_validated:
  "(EnsureSIPAdminPermission pk ctx = None \<and> store s = Some sto \<and>
    store_ListSIPDispatchRule sto ctx (world st) = (Inr rules, v1) \<longrightarrow>
      SipDispatchRuleId (rule_of_request rule_req) = [] \<and>
      (\<forall>err. sip_ValidateDispatchRules pk (rules @ [rule_of_request rule_req]) = Some err \<longrightarrow>
         CreateSIPDispatchRule pk s ctx rule_req st =
           (Inl err,
            st\<lparr>world := v1,
               trace := trace st @
                 [EnsureSIPAdminPermission_call, Store ListSIPDispatchRule_call,
                  ValidateDispatchRules_call (rules @ [rule_of_request rule_req])]\<rparr>)) \<and>
      (sip_ValidateDispatchRules pk (rules @ [rule_of_request rule_req]) = None \<longrightarrow>
         (case guid_New pk (utils_SIPDispatchRulePrefix pk) v1 of
            (new_id, w2) \<Rightarrow>
              (case store_StoreSIPDispatchRule sto ctx ((rule_of_request rule_req)\<lparr>SipDispatchRuleId := new_id\<rparr>) w2 of
                 (res, w3) \<Rightarrow>
                   CreateSIPDispatchRule pk s ctx rule_req st =
                     (case res of
                        Some err \<Rightarrow> Inl err
                      | None \<Rightarrow> Inr ((rule_of_request rule_req)\<lparr>SipDispatchRuleId := new_id\<rparr>),
                      st\<lparr>world := w3,
                         trace := trace st @
                           [EnsureSIPAdminPermission_call, Store ListSIPDispatchRule_call,
                            ValidateDispatchRules_call (rules @ [rule_of_request rule_req]),
                            guid_New_call (utils_SIPDispatchRulePrefix pk),
                            Store (StoreSIPDispatchRule_call
                                     ((rule_of_request rule_req)\<lparr>SipDispatchRuleId := new_id\<rparr>))]\<rparr>)))))"
  unfolding CreateSIPDispatchRule_def
  by (auto simp add: run_simps rule_of_request_def split: prod.splits option.splits)

lemma CreateSIPTrunk_guarded:
  "commits_guarded pk False (new_events st (snd (CreateSIPTrunk pk s ctx trunk_req st)))"
  unfolding CreateSIPTrunk_def
  by (auto simp add: run_simps new_events_def split: prod.splits sum.splits option.splits)

lemma CreateSIPInboundTrunk_guarded:
  "commits_guarded pk False (new_events st (snd (CreateSIPInboundTrunk pk s ctx inbound_req st)))"
  unfolding CreateSIPInboundTrunk_def
  by (auto simp add: run_simps new_events_def split: prod.splits sum.splits option.splits)

lemma CreateSIPDispatchRule_guarded:
  "commits_guarded pk False (new_events st (snd (CreateSIPDispatchRule pk s ctx rule_req st)))"
  unfolding CreateSIPDispatchRule_def
  by (auto simp add: run_simps new_events_def split: prod.splits sum.splits option.splits)

text \<open>
  Claim C1. For \<open>CreateSIPTrunk\<close>, \<open>CreateSIPInboundTrunk\<close> and
  \<open>CreateSIPDispatchRule\<close>, once the gates and the input checks pass and the store has
  listed the existing entries, the validator is called on that list with the candidate
  appended at the end (for \<open>CreateSIPTrunk\<close>, its conversion by \<open>AsInbound\<close>), the
  candidate's ID still empty. If the validator returns an error, the method returns that
  error and the run ends there: its events are the permission check, the list and the
  validation, so no identifier is allocated and nothing is written. If the validator
  accepts, the identifier is allocated with the prefix of the entity's type and the
  candidate carrying it is written to the store. In every run of the three methods,
  whatever the gates and checks say, each allocation and each store write comes after a
  validation that passed (\<open>commits_guarded\<close>).
\<close>

theorem validation_precedes_allocation_and_store:
  "(EnsureSIPAdminPermission pk ctx = None \<and> store s = Some sto \<and> req_InboundNumbersRegex trunk_req = [] \<and>
    store_ListSIPInboundTrunk sto ctx (world st) = (Inr trunks, w1) \<longrightarrow>
      SipTrunkId (trunk_of_request trunk_req) = [] \<and>
      (\<forall>err. sip_ValidateTrunks pk (trunks @ [AsInbound pk (trunk_of_request trunk_req)]) = Some err \<longrightarrow>
         CreateSIPTrunk pk s ctx trunk_req st =
           (Inl err,
            st\<lparr>world := w1,
               trace := trace st @
                 [EnsureSIPAdminPermission_call, Store ListSIPInboundTrunk_call,
                  ValidateTrunks_call (trunks @ [AsInbound pk (trunk_of_request trunk_req)])]\<rparr>)) \<and>
      (sip_ValidateTrunks pk (trunks @ [AsInbound pk (trunk_of_request trunk_req)]) = None \<longrightarrow>
         (case guid_New pk (utils_SIPTrunkPrefix pk) w1 of
            (new_id, w2) \<Rightarrow>
              (case store_StoreSIPTrunk sto ctx ((trunk_of_request trunk_req)\<lparr>SipTrunkId := new_id\<rparr>) w2 of
                 (res, w3) \<Rightarrow>
                   CreateSIPTrunk pk s ctx trunk_req st =
                     (case res of
                        Some err \<Rightarrow> Inl err
                      | None \<Rightarrow> Inr ((trunk_of_request trunk_req)\<lparr>SipTrunkId := new_id\<rparr>),
                      st\<lparr>world := w3,
                         trace := trace st @
                           [EnsureSIPAdminPermission_call, Store ListSIPInboundTrunk_call,
                            ValidateTrunks_call (trunks @ [AsInbound pk (trunk_of_request trunk_req)]),
                            guid_New_call (utils_SIPTrunkPrefix pk),
                            Store (StoreSIPTrunk_call
                                     ((trunk_of_request trunk_req)\<lparr>SipTrunkId := new_id\<rparr>))]\<rparr>))))) \<and>
   (EnsureSIPAdminPermission pk ctx = None \<and> store s = Some sto \<and> in_Trunk inbound_req = Some info \<and> in_SipTrunkId info = [] \<and>
    store_ListSIPInboundTrunk sto ctx (world st) = (Inr trunks, w1) \<longrightarrow>
      in_SipTrunkId info = [] \<and>
      (\<forall>err. sip_ValidateTrunks pk (trunks @ [info]) = Some err \<longrightarrow>
         CreateSIPInboundTrunk pk s ctx inbound_req st =
           (Inl err,
            st\<lparr>world := w1,
               trace := trace st @
                 [EnsureSIPAdminPermission_call, Store ListSIPInboundTrunk_call,
                  ValidateTrunks_call (trunks @ [info])]\<rparr>)) \<and>
      (sip_ValidateTrunks pk (trunks @ [info]) = None \<longrightarrow>
         (case guid_New pk (utils_SIPTrunkPrefix pk) w1 of
            (new_id, w2) \<Rightarrow>
              (case store_StoreSIPInboundTrunk sto ctx (info\<lparr>in_SipTrunkId := new_id\<rparr>) w2 of
                 (res, w3) \<Rightarrow>
                   CreateSIPInboundTrunk pk s ctx inbound_req st =
                     (case res of
                        Some err \<Rightarrow> Inl err
                      | None \<Rightarrow> Inr (info\<lparr>in_SipTrunkId := new_id\<rparr>),
                      st\<lparr>world := w3,
                         trace := trace st @
                           [EnsureSIPAdminPermission_call, Store ListSIPInboundTrunk_call,
                            ValidateTrunks_call (trunks @ [info]),
                            guid_New_call (utils_SIPTrunkPrefix pk),
                            Store (StoreSIPInboundTrunk_call
                                     (info\<lparr>in_SipTrunkId := new_id\<rparr>))]\<rparr>))))) \<and>
   (EnsureSIPAdminPermission pk ctx = None \<and> store s = Some sto \<and>
    store_ListSIPDispatchRule sto ctx (world st) = (Inr rules, v1) \<longrightarrow>
      SipDispatchRuleId (rule_of_request rule_req) = [] \<and>
      (\<forall>err. sip_ValidateDispatchRules pk (rules @ [rule_of_request rule_req]) = Some err \<longrightarrow>
         CreateSIPDispatchRule pk s ctx rule_req st =
           (Inl err,
            st\<lparr>world := v1,
               trace := trace st @
                 [EnsureSIPAdminPermission_call, Store ListSIPDispatchRule_call,
                  ValidateDispatchRules_call (rules @ [rule_of_request rule_req])]\<rparr>)) \<and>
      (sip_ValidateDispatchRules pk (rules @ [rule_of_request rule_req]) = None \<longrightarrow>
         (case guid_New pk (utils_SIPDispatchRulePrefix pk) v1 of
            (new_id, w2) \<Rightarrow>
              (case store_StoreSIPDispatchRule sto ctx ((rule_of_request rule_req)\<lparr>SipDispatchRuleId := new_id\<rparr>) w2 of
                 (res, w3) \<Rightarrow>
                   CreateSIPDispatchRule pk s ctx rule_req st =
                     (case res of
                        Some err \<Rightarrow> Inl err
                      | None \<Rightarrow> Inr ((rule_of_request rule_req)\<lparr>SipDispatchRuleId := new_id\<rparr>),
                      st\<lparr>world := w3,
                         trace := trace st @
                           [EnsureSIPAdminPermission_call, Store ListSIPDispatchRule_call,
                            ValidateDispatchRules_call (rules @ [rule_of_request rule_req]),
                            guid_New_call (utils_SIPDispatchRulePrefix pk),
                            Store (StoreSIPDispatchRule_call
                                     ((rule_of_request rule_req)\<lparr>SipDispatchRuleId := new_id\<rparr>))]\<rparr>))))) \<and>
   commits_guarded pk False (new_events st (snd (CreateSIPTrunk pk s ctx trunk_req st))) \<and>
   commits_guarded pk False (new_events st (snd (CreateSIPInboundTrunk pk s ctx inbound_req st))) \<and>
   commits_guarded pk False (new_events st (snd (CreateSIPDispatchRule pk s ctx rule_req st)))"
  by (intro conjI CreateSIPTrunk_validated CreateSIPInboundTrunk_validated
      CreateSIPDispatchRule_validated CreateSIPTrunk_guarded CreateSIPInboundTrunk_guarded
      CreateSIPDispatchRule_guarded)

theorem validation_precedes_allocation_and_store_witness:
  "CreateSIPTrunk mem_packages mem_service admin_ctx conflicting_trunk_request start =
     (Inl (ExternalError ''conflicting inbound trunks''),
      start\<lparr>world := mem0,
            trace := [EnsureSIPAdminPermission_call, Store ListSIPInboundTrunk_call,
                      ValidateTrunks_call
                        [office_inbound,
                         AsInbound mem_packages (trunk_of_request conflicting_trunk_request)]]\<rparr>) \<and>
   CreateSIPInboundTrunk mem_packages mem_service admin_ctx \<lparr>in_Trunk = Some fresh_inbound\<rparr>
       start =
     (Inr (fresh_inbound\<lparr>in_SipTrunkId := ''ST_x''\<rparr>),
      start\<lparr>world := mem0\<lparr>mem_inbound :=
                         [office_inbound, fresh_inbound\<lparr>in_SipTrunkId := ''ST_x''\<rparr>],
                       mem_ids := 1\<rparr>,
            trace := [EnsureSIPAdminPermission_call, Store ListSIPInboundTrunk_call,
                      ValidateTrunks_call [office_inbound, fresh_inbound],
                      guid_New_call ''ST_'',
                      Store (StoreSIPInboundTrunk_call
                               (fresh_inbound\<lparr>in_SipTrunkId := ''ST_x''\<rparr>))]\<rparr>) \<and>
   CreateSIPDispatchRule mem_packages mem_service admin_ctx conflicting_rule_request start =
     (Inl (ExternalError ''conflicting dispatch rules''),
      start\<lparr>world := mem0,
            trace := [EnsureSIPAdminPermission_call, Store ListSIPDispatchRule_call,
                      ValidateDispatchRules_call
                        [office_rule, rule_of_request conflicting_rule_request]]\<rparr>)"
proof -
  note fact = validation_precedes_allocation_and_store [where pk = mem_packages
      and ctx = admin_ctx and s = mem_service and sto = mem_store and st = start
      and trunk_req = conflicting_trunk_request and trunks = "[office_inbound]"
      and ?w1.0 = mem0 and inbound_req = "\<lparr>in_Trunk = Some fresh_inbound\<rparr>"
      and info = fresh_inbound and rule_req = conflicting_rule_request
      and rules = "[office_rule]" and ?v1.0 = mem0]
  have perm: "EnsureSIPAdminPermission mem_packages admin_ctx = None"
    by (simp add: mem_packages_def admin_ctx_def)
  have conn: "store mem_service = Some mem_store"
    by (simp add: mem_service_def)
  have listed: "store_ListSIPInboundTrunk mem_store admin_ctx (world start) =
      (Inr [office_inbound], mem0)"
    by (simp add: mem_store_def start_def mem0_def)
  have listed_rules: "store_ListSIPDispatchRule mem_store admin_ctx (world start) =
      (Inr [office_rule], mem0)"
    by (simp add: mem_store_def start_def mem0_def)
  have no_regex: "req_InboundNumbersRegex conflicting_trunk_request = []"
    by (simp add: conflicting_trunk_request_def fresh_trunk_request_def
        legacy_regex_request_def)
  have conflict: "sip_ValidateTrunks mem_packages
      ([office_inbound] @ [AsInbound mem_packages (trunk_of_request conflicting_trunk_request)])
      = Some (ExternalError ''conflicting inbound trunks'')"
    by (simp add: mem_packages_def office_inbound_def trunk_of_request_def
        conflicting_trunk_request_def fresh_trunk_request_def legacy_regex_request_def)
  have candidate: "in_Trunk \<lparr>in_Trunk = Some fresh_inbound\<rparr> = Some fresh_inbound \<and>
      in_SipTrunkId fresh_inbound = []"
    by (simp add: fresh_inbound_def)
  have accepted: "sip_ValidateTrunks mem_packages ([office_inbound] @ [fresh_inbound]) = None"
    by (simp add: mem_packages_def office_inbound_def fresh_inbound_def)
  have allocated: "guid_New mem_packages (utils_SIPTrunkPrefix mem_packages) mem0 =
      (''ST_x'', mem0\<lparr>mem_ids := 1\<rparr>)"
    by (simp add: mem_packages_def mem0_def)
  have stored: "store_StoreSIPInboundTrunk mem_store admin_ctx
      (fresh_inbound\<lparr>in_SipTrunkId := ''ST_x''\<rparr>) (mem0\<lparr>mem_ids := 1\<rparr>) =
      (None, mem0\<lparr>mem_inbound :=
                       [office_inbound, fresh_inbound\<lparr>in_SipTrunkId := ''ST_x''\<rparr>],
                     mem_ids := 1\<rparr>)"
    by (simp add: mem_store_def mem0_def)
  have rule_conflict: "sip_ValidateDispatchRules mem_packages
      ([office_rule] @ [rule_of_request conflicting_rule_request])
      = Some (ExternalError ''conflicting dispatch rules'')"
    by (simp add: mem_packages_def office_rule_def rule_of_request_def
        conflicting_rule_request_def)
  have prefix: "utils_SIPTrunkPrefix mem_packages = ''ST_''"
    by (simp add: mem_packages_def)
  have first: "CreateSIPTrunk mem_packages mem_service admin_ctx conflicting_trunk_request start =
     (Inl (ExternalError ''conflicting inbound trunks''),
      start\<lparr>world := mem0,
            trace := [EnsureSIPAdminPermission_call, Store ListSIPInboundTrunk_call,
                      ValidateTrunks_call
                        [office_inbound,
                         AsInbound mem_packages (trunk_of_request conflicting_trunk_request)]]\<rparr>)"
    using fact [THEN conjunct1] perm conn no_regex listed conflict
    by (simp add: start_def)
  have second: "CreateSIPInboundTrunk mem_packages mem_service admin_ctx
       \<lparr>in_Trunk = Some fresh_inbound\<rparr> start =
     (Inr (fresh_inbound\<lparr>in_SipTrunkId := ''ST_x''\<rparr>),
      start\<lparr>world := mem0\<lparr>mem_inbound :=
                         [office_inbound, fresh_inbound\<lparr>in_SipTrunkId := ''ST_x''\<rparr>],
                       mem_ids := 1\<rparr>,
            trace := [EnsureSIPAdminPermission_call, Store ListSIPInboundTrunk_call,
                      ValidateTrunks_call [office_inbound, fresh_inbound],
                      guid_New_call ''ST_'',
                      Store (StoreSIPInboundTrunk_call
                               (fresh_inbound\<lparr>in_SipTrunkId := ''ST_x''\<rparr>))]\<rparr>)"
    using fact [THEN conjunct2, THEN conjunct1] perm conn candidate listed accepted allocated
      stored prefix
    by (simp add: start_def)
  have third: "CreateSIPDispatchRule mem_packages mem_service admin_ctx conflicting_rule_request
       start =
     (Inl (ExternalError ''conflicting dispatch rules''),
      start\<lparr>world := mem0,
            trace := [EnsureSIPAdminPermission_call, Store ListSIPDispatchRule_call,
                      ValidateDispatchRules_call
                        [office_rule, rule_of_request conflicting_rule_request]]\<rparr>)"
    using fact [THEN conjunct2, THEN conjunct2, THEN conjunct1] perm conn listed_rules
      rule_conflict
    by (simp add: start_def)
  from first second third show ?thesis
    by simp
qed

subsection \<open>Creating an outbound trunk\<close>

text \<open>
  Claim C3. For an outbound-trunk create with a trunk object whose ID is empty, once the
  two gates pass, the run is: the permission check, the allocation of an identifier with
  the trunk prefix, the store write of the trunk carrying that identifier. No list of
  existing trunks is read and no validator is called, and the validators have no bearing
  on the run at all; the create succeeds with the stored trunk unless the store write
  itself returns an error. In the witness the store already holds an outbound trunk with
  the same destination address, and the create succeeds.
\<close>

theorem outbound_trunk_created_without_validation:
  assumes "EnsureSIPAdminPermission pk ctx = None" and "store s = Some sto"
    and "out_Trunk req = Some info" and "out_SipTrunkId info = []"
    and "guid_New pk (utils_SIPTrunkPrefix pk) (world st) = (new_id, w1)"
    and "store_StoreSIPOutboundTrunk sto ctx (info\<lparr>out_SipTrunkId := new_id\<rparr>) w1 = (res, w2)"
  shows
    "CreateSIPOutboundTrunk pk s ctx req st =
       (case res of Some err \<Rightarrow> Inl err | None \<Rightarrow> Inr (info\<lparr>out_SipTrunkId := new_id\<rparr>),
        st\<lparr>world := w2,
           trace := trace st @
             [EnsureSIPAdminPermission_call, guid_New_call (utils_SIPTrunkPrefix pk),
              Store (StoreSIPOutboundTrunk_call (info\<lparr>out_SipTrunkId := new_id\<rparr>))]\<rparr>) \<and>
     CreateSIPOutboundTrunk
         (pk\<lparr>sip_ValidateTrunks := validate, sip_ValidateDispatchRules := validate_rules\<rparr>)
         s ctx req st =
       CreateSIPOutboundTrunk pk s ctx req st"
  using assms unfolding CreateSIPOutboundTrunk_def
  by (simp add: run_simps split: option.splits)

theorem outbound_trunk_created_without_validation_witness:
  "out_Address duplicate_outbound = out_Address (hd (mem_outbound (world start))) \<and>
   CreateSIPOutboundTrunk mem_packages mem_service admin_ctx
       \<lparr>out_Trunk = Some duplicate_outbound\<rparr> start =
     (Inr (duplicate_outbound\<lparr>out_SipTrunkId := ''ST_x''\<rparr>),
      start\<lparr>world := mem0\<lparr>mem_outbound := [carrier_outbound,
                 duplicate_outbound\<lparr>out_SipTrunkId := ''ST_x''\<rparr>], mem_ids := 1\<rparr>,
            trace := [EnsureSIPAdminPermission_call, guid_New_call ''ST_'',
              Store (StoreSIPOutboundTrunk_call (duplicate_outbound\<lparr>out_SipTrunkId := ''ST_x''\<rparr>))]\<rparr>)"
proof -
  have perm: "EnsureSIPAdminPermission mem_packages admin_ctx = None"
    by (simp add: mem_packages_def admin_ctx_def)
  have conn: "store mem_service = Some mem_store"
    by (simp add: mem_service_def)
  have trunk: "out_Trunk \<lparr>out_Trunk = Some duplicate_outbound\<rparr> = Some duplicate_outbound"
    by simp
  have fresh: "out_SipTrunkId duplicate_outbound = []"
    by (simp add: duplicate_outbound_def)
  have alloc: "guid_New mem_packages (utils_SIPTrunkPrefix mem_packages) (world start) =
      (''ST_x'', mem0\<lparr>mem_ids := 1\<rparr>)"
    by (simp add: mem_packages_def start_def mem0_def)
  have stored: "store_StoreSIPOutboundTrunk mem_store admin_ctx
      (duplicate_outbound\<lparr>out_SipTrunkId := ''ST_x''\<rparr>) (mem0\<lparr>mem_ids := 1\<rparr>) =
      (None, mem0\<lparr>mem_outbound := [carrier_outbound,
                 duplicate_outbound\<lparr>out_SipTrunkId := ''ST_x''\<rparr>], mem_ids := 1\<rparr>)"
    by (simp add: mem_store_def mem0_def)
  have same: "out_Address duplicate_outbound = out_Address (hd (mem_outbound (world start)))"
    by (simp add: duplicate_outbound_def start_def mem0_def)
  show ?thesis
    using outbound_trunk_created_without_validation [OF perm conn trunk fresh alloc stored] same
    by (simp add: start_def mem_packages_def)
qed

subsection \<open>Deleting\<close>

text \<open>
  Claim C9. \<open>DeleteSIPTrunk\<close> never loads the trunk: once the gates pass, its run is
  the permission check and one store call, the delete by the requested ID; in every run
  the only store call that can occur is that delete; and whenever the method succeeds,
  what it returns is the zero \<open>SIPTrunkInfo\<close> with only \<open>SipTrunkId\<close> set to the
  requested ID, not what the store held (in the witness the stored trunk has a name, the
  returned one has none).
\<close>

theorem delete_trunk_by_id_alone:
  "(EnsureSIPAdminPermission pk ctx = None \<and> store s = Some sto \<and>
    store_DeleteSIPTrunk sto ctx (del_SipTrunkId req) (world st) = (res, w1) \<longrightarrow>
      DeleteSIPTrunk pk s ctx req st =
        (case res of
           Some err \<Rightarrow> Inl err
         | None \<Rightarrow> Inr (SIPTrunkInfo_zero\<lparr>SipTrunkId := del_SipTrunkId req\<rparr>),
         st\<lparr>world := w1,
            trace := trace st @
              [EnsureSIPAdminPermission_call, Store (DeleteSIPTrunk_call (del_SipTrunkId req))]\<rparr>)) \<and>
   (\<forall>c. Store c \<in> set (new_events st (snd (DeleteSIPTrunk pk s ctx req st))) \<longrightarrow>
      c = DeleteSIPTrunk_call (del_SipTrunkId req)) \<and>
   (\<forall>info. fst (DeleteSIPTrunk pk s ctx req st) = Inr info \<longrightarrow>
      info = SIPTrunkInfo_zero\<lparr>SipTrunkId := del_SipTrunkId req\<rparr>)"
  unfolding DeleteSIPTrunk_def
  by (auto simp add: run_simps new_events_def split: option.splits prod.splits)

theorem delete_trunk_by_id_alone_witness:
  "Name (hd (mem_legacy (world start))) = ''old office'' \<and>
   DeleteSIPTrunk mem_packages mem_service admin_ctx \<lparr>del_SipTrunkId = ''ST_legacy''\<rparr> start =
     (Inr \<lparr>SipTrunkId = ''ST_legacy'', InboundAddresses = [], OutboundAddress = [],
           OutboundNumber = [], InboundNumbers = [], InboundUsername = [],
           InboundPassword = [], OutboundUsername = [], OutboundPassword = [], Name = [],
           Metadata = []\<rparr>,
      start\<lparr>world := mem0\<lparr>mem_legacy := []\<rparr>,
            trace := [EnsureSIPAdminPermission_call, Store (DeleteSIPTrunk_call ''ST_legacy'')]\<rparr>)"
proof -
  have gates: "EnsureSIPAdminPermission mem_packages admin_ctx = None \<and>
      store mem_service = Some mem_store"
    by (simp add: mem_packages_def admin_ctx_def mem_service_def)
  have del: "store_DeleteSIPTrunk mem_store admin_ctx
      (del_SipTrunkId \<lparr>del_SipTrunkId = ''ST_legacy''\<rparr>) (world start) =
      (None, mem0\<lparr>mem_legacy := []\<rparr>)"
    by (simp add: mem_store_def start_def mem0_def office_legacy_def office_inbound_def
        carrier_outbound_def SIPTrunkInfo_zero_def)
  have stored: "Name (hd (mem_legacy (world start))) = ''old office''"
    by (simp add: start_def mem0_def office_legacy_def)
  show ?thesis
    using delete_trunk_by_id_alone [where pk = mem_packages and ctx = admin_ctx
        and s = mem_service and sto = mem_store
        and req = "\<lparr>del_SipTrunkId = ''ST_legacy''\<rparr>" and st = start
        and res = None and ?w1.0 = "mem0\<lparr>mem_legacy := []\<rparr>", THEN conjunct1]
      gates del stored
    by (simp add: start_def SIPTrunkInfo_zero_def)
qed

text \<open>
  Claim C8. \<open>DeleteSIPDispatchRule\<close>, once the gates pass, first loads the rule by the
  requested ID. If the load fails, the method returns the load's error and makes no
  further store call. If the load succeeds, the delete is called with the loaded object,
  and on success that object is returned (a delete error is returned as it is).
\<close>

theorem delete_dispatch_rule_loads_first:
  assumes "EnsureSIPAdminPermission pk ctx = None" and "store s = Some sto"
    and "store_LoadSIPDispatchRule sto ctx (del_SipDispatchRuleId req) (world st) = (loaded, w1)"
  shows
    "(\<forall>err. loaded = Inl err \<longrightarrow>
        DeleteSIPDispatchRule pk s ctx req st =
          (Inl err,
           st\<lparr>world := w1,
              trace := trace st @
                [EnsureSIPAdminPermission_call,
                 Store (LoadSIPDispatchRule_call (del_SipDispatchRuleId req))]\<rparr>)) \<and>
     (\<forall>info res w2.
        loaded = Inr info \<and> store_DeleteSIPDispatchRule sto ctx info w1 = (res, w2) \<longrightarrow>
        DeleteSIPDispatchRule pk s ctx req st =
          (case res of Some err \<Rightarrow> Inl err | None \<Rightarrow> Inr info,
           st\<lparr>world := w2,
              trace := trace st @
                [EnsureSIPAdminPermission_call,
                 Store (LoadSIPDispatchRule_call (del_SipDispatchRuleId req)),
                 Store (DeleteSIPDispatchRule_call info)]\<rparr>))"
  using assms unfolding DeleteSIPDispatchRule_def
  by (auto simp add: run_simps split: option.splits)

theorem delete_dispatch_rule_loads_first_witness:
  "DeleteSIPDispatchRule mem_packages mem_service admin_ctx
       \<lparr>del_SipDispatchRuleId = ''SDR_office''\<rparr> start =
     (Inr office_rule,
      start\<lparr>world := mem0\<lparr>mem_rules := []\<rparr>,
            trace := [EnsureSIPAdminPermission_call,
                      Store (LoadSIPDispatchRule_call ''SDR_office''),
                      Store (DeleteSIPDispatchRule_call office_rule)]\<rparr>) \<and>
   DeleteSIPDispatchRule mem_packages mem_service admin_ctx
       \<lparr>del_SipDispatchRuleId = ''SDR_missing''\<rparr> start =
     (Inl not_found,
      start\<lparr>world := mem0,
            trace := [EnsureSIPAdminPermission_call,
                      Store (LoadSIPDispatchRule_call ''SDR_missing'')]\<rparr>)"
proof -
  have perm: "EnsureSIPAdminPermission mem_packages admin_ctx = None"
    by (simp add: mem_packages_def admin_ctx_def)
  have conn: "store mem_service = Some mem_store"
    by (simp add: mem_service_def)
  have found: "store_LoadSIPDispatchRule mem_store admin_ctx
      (del_SipDispatchRuleId \<lparr>del_SipDispatchRuleId = ''SDR_office''\<rparr>) (world start) =
      (Inr office_rule, mem0)"
    by (simp add: mem_store_def start_def mem0_def office_rule_def)
  have missing: "store_LoadSIPDispatchRule mem_store admin_ctx
      (del_SipDispatchRuleId \<lparr>del_SipDispatchRuleId = ''SDR_missing''\<rparr>) (world start) =
      (Inl not_found, mem0)"
    by (simp add: mem_store_def start_def mem0_def office_rule_def)
  have del: "store_DeleteSIPDispatchRule mem_store admin_ctx office_rule mem0 =
      (None, mem0\<lparr>mem_rules := []\<rparr>)"
    by (simp add: mem_store_def mem0_def)
  show ?thesis
    using delete_dispatch_rule_loads_first [OF perm conn found]
      delete_dispatch_rule_loads_first [OF perm conn missing] del
    by (simp add: start_def)
qed

subsection \<open>Building the internal request\<close>

text \<open>
  Claim C10. \<open>CreateSIPParticipantRequest\<close>, once the gates pass, generates the call
  ID before it looks the outbound trunk up: the lookup runs in the world the generator
  left. When the lookup fails, the method logs and returns the lookup's error, the call
  ID having been generated all the same. When it succeeds, the result is what the request
  builder makes of the project ID, that call ID, the host, URL and token, the original
  request and the loaded trunk.
\<close>

theorem call_id_generated_before_trunk_lookup:
  assumes "EnsureSIPCallPermission pk ctx = None" and "store s = Some sto"
    and "sip_NewCallID pk (world st) = (callID, w1)"
    and "store_LoadSIPOutboundTrunk sto ctx (p_SipTrunkId req) w1 = (loaded, w2)"
  shows
    "(\<forall>err. loaded = Inl err \<longrightarrow>
        CreateSIPParticipantRequest pk s ctx req projectID host wsUrl token st =
          (Inl err,
           st\<lparr>world := w2,
              trace := trace st @
                [EnsureSIPCallPermission_call, NewCallID_call,
                 Store (LoadSIPOutboundTrunk_call (p_SipTrunkId req)),
                 Errorw_call ''cannot get trunk to update sip participant'' err]\<rparr>)) \<and>
     (\<forall>trunk. loaded = Inr trunk \<longrightarrow>
        CreateSIPParticipantRequest pk s ctx req projectID host wsUrl token st =
          (rpc_NewCreateSIPParticipantRequest pk projectID callID host wsUrl token req trunk,
           st\<lparr>world := w2,
              trace := trace st @
                [EnsureSIPCallPermission_call, NewCallID_call,
                 Store (LoadSIPOutboundTrunk_call (p_SipTrunkId req))]\<rparr>))"
  using assms unfolding CreateSIPParticipantRequest_def
  by (auto simp add: run_simps)

theorem call_id_generated_before_trunk_lookup_witness:
  "CreateSIPParticipantRequest mem_packages mem_service admin_ctx
       (participant_request\<lparr>p_SipTrunkId := ''ST_missing''\<rparr>) ''project'' ''host'' ''ws'' ''token''
       start =
     (Inl not_found,
      start\<lparr>world := mem0\<lparr>mem_ids := 1\<rparr>,
            trace := [EnsureSIPCallPermission_call, NewCallID_call,
                      Store (LoadSIPOutboundTrunk_call ''ST_missing''),
                      Errorw_call ''cannot get trunk to update sip participant'' not_found]\<rparr>) \<and>
   CreateSIPParticipantRequest mem_packages mem_service admin_ctx participant_request
       [] [] [] [] start =
     (Inr built_request,
      start\<lparr>world := mem0\<lparr>mem_ids := 1\<rparr>,
            trace := [EnsureSIPCallPermission_call, NewCallID_call,
                      Store (LoadSIPOutboundTrunk_call ''ST_carrier'')]\<rparr>)"
proof -
  have perm: "EnsureSIPCallPermission mem_packages admin_ctx = None"
    by (simp add: mem_packages_def admin_ctx_def)
  have conn: "store mem_service = Some mem_store"
    by (simp add: mem_service_def)
  have fresh: "sip_NewCallID mem_packages (world start) = (''SCL_x'', mem0\<lparr>mem_ids := 1\<rparr>)"
    by (simp add: mem_packages_def start_def mem0_def)
  have missing: "store_LoadSIPOutboundTrunk mem_store admin_ctx
      (p_SipTrunkId (participant_request\<lparr>p_SipTrunkId := ''ST_missing''\<rparr>))
      (mem0\<lparr>mem_ids := 1\<rparr>) = (Inl not_found, mem0\<lparr>mem_ids := 1\<rparr>)"
    by (simp add: mem_store_def mem0_def carrier_outbound_def)
  have found: "store_LoadSIPOutboundTrunk mem_store admin_ctx
      (p_SipTrunkId participant_request) (mem0\<lparr>mem_ids := 1\<rparr>) =
      (Inr carrier_outbound, mem0\<lparr>mem_ids := 1\<rparr>)"
    by (simp add: mem_store_def mem0_def carrier_outbound_def participant_request_def)
  have built: "rpc_NewCreateSIPParticipantRequest mem_packages [] ''SCL_x'' [] [] []
      participant_request carrier_outbound = Inr built_request"
    by (simp add: mem_packages_def carrier_outbound_def participant_request_def
        built_request_def)
  show ?thesis
    using call_id_generated_before_trunk_lookup [OF perm conn fresh missing,
        of "''project''" "''host''" "''ws''" "''token''"]
      call_id_generated_before_trunk_lookup [OF perm conn fresh found, of "[]" "[]" "[]" "[]"]
      built
    by (simp add: start_def participant_request_def)
qed

subsection \<open>Dispatching the internal request\<close>

lemma built_request_trace:
  assumes "CreateSIPParticipantRequest pk s ctx req projectID host wsUrl token st = (Inr ireq, st1)"
  shows "trace st1 = trace st @
           [EnsureSIPCallPermission_call, NewCallID_call,
            Store (LoadSIPOutboundTrunk_call (p_SipTrunkId req))] \<and>
         (\<exists>trunk. rpc_NewCreateSIPParticipantRequest pk projectID
                     (fst (sip_NewCallID pk (world st))) host wsUrl token req trunk = Inr ireq)"
  using assms unfolding CreateSIPParticipantRequest_def
  by (auto simp add: run_simps split: option.splits prod.splits sum.splits)

lemma time_Sub_in_range:
  "minDuration \<le> t - u \<Longrightarrow> t - u \<le> maxDuration \<Longrightarrow> time_Sub t u = t - u"
  by (simp add: time_Sub_def)

text \<open>
  Claim C4. Once the internal request is built (from the state the logger call at the
  start of the method leaves), \<open>CreateSIPParticipant\<close> makes the
  remote call next, and the timeout the call is given is: with a deadline on the caller's
  context, \<open>time.Until(deadline)\<close>, read when the request has been built (the
  difference between the deadline and the clock, whenever that fits a \<open>Duration\<close>),
  the call running under the caller's context; with no deadline, 30 seconds, the call
  running under a child context that expires 30 seconds from then. With a deadline 5
  seconds ahead the timeout is 5 seconds, not 30.
\<close>

theorem remote_call_timeout:
  assumes "CreateSIPParticipantRequest pk s ctx req [] [] [] []
             (emit (logger_WithValues_call (request_log_values req)) st) = (Inr ireq, st1)"
  shows
    "\<exists>timeout ctx' rest.
       trace (snd (CreateSIPParticipant pk s ctx req st)) =
         trace st1 @ psrpc_CreateSIPParticipant_call ctx' [] ireq timeout # rest \<and>
       world (snd (CreateSIPParticipant pk s ctx req st)) =
         snd (psrpc_CreateSIPParticipant (psrpcClient s) ctx' [] ireq timeout (world st1)) \<and>
       (case Deadline ctx of
          Some deadline \<Rightarrow> timeout = time_Until pk deadline (world st1) \<and> ctx' = ctx
        | None \<Rightarrow>
            timeout = 30 * Second \<and>
            ctx' = ctx\<lparr>Deadline := Some (time_Now pk (world st1) + 30 * Second)\<rparr>) \<and>
       (\<forall>deadline.
          Deadline ctx = Some deadline \<and>
          minDuration \<le> deadline - time_Now pk (world st1) \<and>
          deadline - time_Now pk (world st1) \<le> maxDuration \<longrightarrow>
          timeout = deadline - time_Now pk (world st1)) \<and>
       (Deadline ctx = Some (time_Now pk (world st1) + 5 * Second) \<longrightarrow>
          timeout = 5 * Second \<and> timeout \<noteq> 30 * Second)"
proof (cases "Deadline ctx")
  case None
  then show ?thesis
    using assms unfolding CreateSIPParticipant_def
    by (auto simp add: run_simps context_WithTimeout_def split: prod.splits sum.splits)
next
  case (Some deadline)
  have five: "time_Sub (u + 5000000000) u = 5000000000" for u
    by (simp add: time_Sub_def minDuration_def maxDuration_def)
  from Some show ?thesis
    using assms unfolding CreateSIPParticipant_def
    by (auto simp add: run_simps time_Until_def time_Sub_in_range five Second_def
        split: prod.splits sum.splits)
qed

theorem remote_call_timeout_witness:
  "\<exists>rest.
     trace (snd (CreateSIPParticipant mem_packages mem_service deadline_ctx participant_request
                   start)) =
       [logger_WithValues_call (request_log_values participant_request),
        EnsureSIPCallPermission_call, NewCallID_call,
        Store (LoadSIPOutboundTrunk_call ''ST_carrier''),
        psrpc_CreateSIPParticipant_call deadline_ctx [] built_request (5 * Second)] @ rest"
proof -
  have built: "CreateSIPParticipantRequest mem_packages mem_service deadline_ctx
      participant_request [] [] [] []
      (emit (logger_WithValues_call (request_log_values participant_request)) start) =
      (Inr built_request,
       start\<lparr>world := mem0\<lparr>mem_ids := 1\<rparr>,
             trace := [logger_WithValues_call (request_log_values participant_request),
                       EnsureSIPCallPermission_call, NewCallID_call,
                       Store (LoadSIPOutboundTrunk_call ''ST_carrier'')]\<rparr>)"
    by (simp add: CreateSIPParticipantRequest_def run_simps mem_packages_def mem_service_def
        mem_store_def deadline_ctx_def admin_ctx_def participant_request_def start_def mem0_def
        carrier_outbound_def built_request_def)
  have remaining: "Deadline deadline_ctx =
      Some (time_Now mem_packages
              (world (start\<lparr>world := mem0\<lparr>mem_ids := 1\<rparr>,
                 trace := [logger_WithValues_call (request_log_values participant_request),
                       EnsureSIPCallPermission_call, NewCallID_call,
                           Store (LoadSIPOutboundTrunk_call ''ST_carrier'')]\<rparr>)) + 5 * Second)"
    by (simp add: deadline_ctx_def admin_ctx_def mem_packages_def mem0_def Second_def)
  from remote_call_timeout [OF built] obtain timeout ctx' rest where
    run: "trace (snd (CreateSIPParticipant mem_packages mem_service deadline_ctx
                        participant_request start)) =
            trace (start\<lparr>world := mem0\<lparr>mem_ids := 1\<rparr>,
                     trace := [logger_WithValues_call (request_log_values participant_request),
                       EnsureSIPCallPermission_call, NewCallID_call,
                               Store (LoadSIPOutboundTrunk_call ''ST_carrier'')]\<rparr>) @
            psrpc_CreateSIPParticipant_call ctx' [] built_request timeout # rest"
    and same: "case Deadline deadline_ctx of
                 Some deadline \<Rightarrow> timeout = time_Until mem_packages deadline
                     (world (start\<lparr>world := mem0\<lparr>mem_ids := 1\<rparr>,
                        trace := [logger_WithValues_call (request_log_values participant_request),
                       EnsureSIPCallPermission_call, NewCallID_call,
                                  Store (LoadSIPOutboundTrunk_call ''ST_carrier'')]\<rparr>)) \<and>
                   ctx' = deadline_ctx
               | None \<Rightarrow> timeout = 30 * Second \<and>
                   ctx' = deadline_ctx\<lparr>Deadline := Some (time_Now mem_packages
                     (world (start\<lparr>world := mem0\<lparr>mem_ids := 1\<rparr>,
                        trace := [logger_WithValues_call (request_log_values participant_request),
                       EnsureSIPCallPermission_call, NewCallID_call,
                                  Store (LoadSIPOutboundTrunk_call ''ST_carrier'')]\<rparr>))
                     + 30 * Second)\<rparr>"
    and five: "Deadline deadline_ctx =
                 Some (time_Now mem_packages
                   (world (start\<lparr>world := mem0\<lparr>mem_ids := 1\<rparr>,
                      trace := [logger_WithValues_call (request_log_values participant_request),
                       EnsureSIPCallPermission_call, NewCallID_call,
                                Store (LoadSIPOutboundTrunk_call ''ST_carrier'')]\<rparr>)) + 5 * Second)
               \<longrightarrow> timeout = 5 * Second \<and> timeout \<noteq> 30 * Second"
    by blast
  from five remaining have t: "timeout = 5 * Second"
    by blast
  from same remaining have c: "ctx' = deadline_ctx"
    by simp
  from run t c show ?thesis
    by simp
qed

text \<open>
  Claim C7. Once the internal request is built (by the request builder, from the call ID
  just generated, in the state the logger call at the start of the method leaves),
  \<open>CreateSIPParticipant\<close> calls the remote peer with it exactly once.
  If the peer returns an error, that error is what the method returns, and the only
  further event is the \<open>Errorw\<close> that logs it. If the peer returns a response, the
  method returns its participant ID and identity, the request's room name and the call ID
  of the internal request. When the internal request cannot be built, that error is
  returned and the peer is not called; so no run calls it more than once.
\<close>

theorem internal_request_dispatched_once:
  "(CreateSIPParticipantRequest pk s ctx req [] [] [] []
        (emit (logger_WithValues_call (request_log_values req)) st) = (Inr ireq, st1) \<longrightarrow>
      (\<exists>timeout ctx' answer w2.
         psrpc_CreateSIPParticipant (psrpcClient s) ctx' [] ireq timeout (world st1)
           = (answer, w2) \<and>
         (case answer of
            Inl err \<Rightarrow>
              CreateSIPParticipant pk s ctx req st =
                (Inl err,
                 st1\<lparr>world := w2,
                     trace := trace st1 @
                       [psrpc_CreateSIPParticipant_call ctx' [] ireq timeout,
                        Errorw_call ''cannot update sip participant'' err]\<rparr>)
          | Inr resp \<Rightarrow>
              CreateSIPParticipant pk s ctx req st =
                (Inr \<lparr>ParticipantId = resp_ParticipantId resp,
                      ParticipantIdentity = resp_ParticipantIdentity resp,
                      RoomName = p_RoomName req,
                      pi_SipCallId = SipCallId ireq\<rparr>,
                 st1\<lparr>world := w2,
                     trace := trace st1 @
                       [psrpc_CreateSIPParticipant_call ctx' [] ireq timeout]\<rparr>))) \<and>
      length (filter is_remote_call
                (new_events st (snd (CreateSIPParticipant pk s ctx req st)))) = 1 \<and>
      (\<exists>trunk. rpc_NewCreateSIPParticipantRequest pk []
                  (fst (sip_NewCallID pk (world st))) [] [] [] req trunk = Inr ireq)) \<and>
   (\<forall>err. fst (CreateSIPParticipantRequest pk s ctx req [] [] [] []
        (emit (logger_WithValues_call (request_log_values req)) st)) = Inl err \<longrightarrow>
      fst (CreateSIPParticipant pk s ctx req st) = Inl err \<and>
      filter is_remote_call (new_events st (snd (CreateSIPParticipant pk s ctx req st))) = []) \<and>
   length (filter is_remote_call
             (new_events st (snd (CreateSIPParticipant pk s ctx req st)))) \<le> 1"
proof -
  have dispatched: "\<exists>timeout ctx' answer w2.
         psrpc_CreateSIPParticipant (psrpcClient s) ctx' [] ireq timeout (world st1)
           = (answer, w2) \<and>
         (case answer of
            Inl err \<Rightarrow>
              CreateSIPParticipant pk s ctx req st =
                (Inl err,
                 st1\<lparr>world := w2,
                     trace := trace st1 @
                       [psrpc_CreateSIPParticipant_call ctx' [] ireq timeout,
                        Errorw_call ''cannot update sip participant'' err]\<rparr>)
          | Inr resp \<Rightarrow>
              CreateSIPParticipant pk s ctx req st =
                (Inr \<lparr>ParticipantId = resp_ParticipantId resp,
                      ParticipantIdentity = resp_ParticipantIdentity resp,
                      RoomName = p_RoomName req,
                      pi_SipCallId = SipCallId ireq\<rparr>,
                 st1\<lparr>world := w2,
                     trace := trace st1 @
                       [psrpc_CreateSIPParticipant_call ctx' [] ireq timeout]\<rparr>))"
    if built: "CreateSIPParticipantRequest pk s ctx req [] [] [] []
        (emit (logger_WithValues_call (request_log_values req)) st) = (Inr ireq, st1)"
  proof -
    obtain timeout ctx' where bound:
      "(case Deadline ctx of
          Some deadline \<Rightarrow> (time_Until pk deadline (world st1), ctx)
        | None \<Rightarrow>
            (30 * Second, context_WithTimeout ctx (30 * Second) (time_Now pk (world st1))))
       = (timeout, ctx')"
      by (cases "Deadline ctx") simp_all
    obtain answer w2 where answered:
      "psrpc_CreateSIPParticipant (psrpcClient s) ctx' [] ireq timeout (world st1) = (answer, w2)"
      by (cases "psrpc_CreateSIPParticipant (psrpcClient s) ctx' [] ireq timeout (world st1)")
    have "case answer of
            Inl err \<Rightarrow>
              CreateSIPParticipant pk s ctx req st =
                (Inl err,
                 st1\<lparr>world := w2,
                     trace := trace st1 @
                       [psrpc_CreateSIPParticipant_call ctx' [] ireq timeout,
                        Errorw_call ''cannot update sip participant'' err]\<rparr>)
          | Inr resp \<Rightarrow>
              CreateSIPParticipant pk s ctx req st =
                (Inr \<lparr>ParticipantId = resp_ParticipantId resp,
                      ParticipantIdentity = resp_ParticipantIdentity resp,
                      RoomName = p_RoomName req,
                      pi_SipCallId = SipCallId ireq\<rparr>,
                 st1\<lparr>world := w2,
                     trace := trace st1 @
                       [psrpc_CreateSIPParticipant_call ctx' [] ireq timeout]\<rparr>)"
      unfolding CreateSIPParticipant_def built
      by (simp add: bound answered run_simps split: sum.splits)
    with answered show ?thesis
      by blast
  qed
  have once: "length (filter is_remote_call
                (new_events st (snd (CreateSIPParticipant pk s ctx req st)))) = 1"
    if built: "CreateSIPParticipantRequest pk s ctx req [] [] [] []
        (emit (logger_WithValues_call (request_log_values req)) st) = (Inr ireq, st1)"
    using built built_request_trace [OF built] unfolding CreateSIPParticipant_def
    by (auto simp add: run_simps new_events_def split: prod.splits sum.splits option.splits)
  have failed: "fst (CreateSIPParticipant pk s ctx req st) = Inl err \<and>
      filter is_remote_call (new_events st (snd (CreateSIPParticipant pk s ctx req st))) = []"
    if "fst (CreateSIPParticipantRequest pk s ctx req [] [] [] []
        (emit (logger_WithValues_call (request_log_values req)) st)) = Inl err" for err
    using that unfolding CreateSIPParticipant_def CreateSIPParticipantRequest_def
    by (auto simp add: run_simps new_events_def split: prod.splits sum.splits option.splits)
  have at_most: "length (filter is_remote_call
             (new_events st (snd (CreateSIPParticipant pk s ctx req st)))) \<le> 1"
  proof (cases "CreateSIPParticipantRequest pk s ctx req [] [] [] []
        (emit (logger_WithValues_call (request_log_values req)) st)")
    case (Pair r st')
    show ?thesis
    proof (cases r)
      case (Inl err)
      with Pair failed [of err] show ?thesis by simp
    next
      case (Inr built)
      with Pair have "CreateSIPParticipantRequest pk s ctx req [] [] [] []
        (emit (logger_WithValues_call (request_log_values req)) st) = (Inr built, st')"
        by simp
      then have "length (filter is_remote_call
                (new_events st (snd (CreateSIPParticipant pk s ctx req st)))) = 1"
        using built_request_trace [of pk s ctx req "[]" "[]" "[]" "[]"
            "emit (logger_WithValues_call (request_log_values req)) st" built st']
        unfolding CreateSIPParticipant_def
        by (auto simp add: run_simps new_events_def split: prod.splits sum.splits option.splits)
      then show ?thesis by simp
    qed
  qed
  have origin: "\<exists>trunk. rpc_NewCreateSIPParticipantRequest pk []
                  (fst (sip_NewCallID pk (world st))) [] [] [] req trunk = Inr ireq"
    if built: "CreateSIPParticipantRequest pk s ctx req [] [] [] []
        (emit (logger_WithValues_call (request_log_values req)) st) = (Inr ireq, st1)"
    using built_request_trace [OF built] by (simp add: emit_def)
  from dispatched once failed at_most origin
  show ?thesis
    by blast
qed

theorem internal_request_dispatched_once_witness:
  "CreateSIPParticipant mem_packages mem_service admin_ctx participant_request start =
     (Inr \<lparr>ParticipantId = ''PA_1'', ParticipantIdentity = ''sip_+15550142'',
           RoomName = ''lobby'', pi_SipCallId = ''SCL_x''\<rparr>,
      start\<lparr>world := mem0\<lparr>mem_ids := 1\<rparr>,
            trace := [logger_WithValues_call (request_log_values participant_request),
                      EnsureSIPCallPermission_call, NewCallID_call,
                      Store (LoadSIPOutboundTrunk_call ''ST_carrier''),
                      psrpc_CreateSIPParticipant_call
                        (admin_ctx\<lparr>Deadline := Some (1030 * Second)\<rparr>) [] built_request
                        (30 * Second)]\<rparr>) \<and>
   length (filter is_remote_call
             (new_events start
                (snd (CreateSIPParticipant mem_packages mem_service admin_ctx
                        participant_request start)))) = 1 \<and>
   fst (CreateSIPParticipant mem_packages mem_service admin_ctx
          (participant_request\<lparr>p_SipTrunkId := ''ST_missing''\<rparr>) start) = Inl not_found \<and>
   filter is_remote_call
     (new_events start
        (snd (CreateSIPParticipant mem_packages mem_service admin_ctx
                (participant_request\<lparr>p_SipTrunkId := ''ST_missing''\<rparr>) start))) = []"
proof -
  have unknown: "fst (CreateSIPParticipantRequest mem_packages mem_service admin_ctx
      (participant_request\<lparr>p_SipTrunkId := ''ST_missing''\<rparr>) [] [] [] []
      (emit (logger_WithValues_call (request_log_values (participant_request\<lparr>p_SipTrunkId := ''ST_missing''\<rparr>))) start)) =
      Inl not_found"
    by (simp add: CreateSIPParticipantRequest_def run_simps mem_packages_def mem_service_def
        mem_store_def admin_ctx_def participant_request_def start_def mem0_def
        carrier_outbound_def)
  note refused = internal_request_dispatched_once [where pk = mem_packages and s = mem_service
      and ctx = admin_ctx and req = "participant_request\<lparr>p_SipTrunkId := ''ST_missing''\<rparr>"
      and st = start, THEN conjunct2, THEN conjunct1, rule_format, OF unknown]
  have built: "CreateSIPParticipantRequest mem_packages mem_service admin_ctx
      participant_request [] [] [] []
      (emit (logger_WithValues_call (request_log_values participant_request)) start) =
      (Inr built_request,
       start\<lparr>world := mem0\<lparr>mem_ids := 1\<rparr>,
             trace := [logger_WithValues_call (request_log_values participant_request),
                      EnsureSIPCallPermission_call, NewCallID_call,
                       Store (LoadSIPOutboundTrunk_call ''ST_carrier'')]\<rparr>)"
    by (simp add: CreateSIPParticipantRequest_def run_simps mem_packages_def mem_service_def
        mem_store_def admin_ctx_def participant_request_def start_def mem0_def
        carrier_outbound_def built_request_def)
  note fact = internal_request_dispatched_once [where pk = mem_packages and s = mem_service
      and ctx = admin_ctx and req = participant_request and st = start
      and ireq = built_request
      and ?st1.0 = "start\<lparr>world := mem0\<lparr>mem_ids := 1\<rparr>,
             trace := [logger_WithValues_call (request_log_values participant_request),
                      EnsureSIPCallPermission_call, NewCallID_call,
                       Store (LoadSIPOutboundTrunk_call ''ST_carrier'')]\<rparr>", THEN conjunct1]
  from fact built have once: "length (filter is_remote_call
             (new_events start
                (snd (CreateSIPParticipant mem_packages mem_service admin_ctx
                        participant_request start)))) = 1"
    by blast
  have run: "CreateSIPParticipant mem_packages mem_service admin_ctx participant_request start =
     (Inr \<lparr>ParticipantId = ''PA_1'', ParticipantIdentity = ''sip_+15550142'',
           RoomName = ''lobby'', pi_SipCallId = ''SCL_x''\<rparr>,
      start\<lparr>world := mem0\<lparr>mem_ids := 1\<rparr>,
            trace := [logger_WithValues_call (request_log_values participant_request),
                      EnsureSIPCallPermission_call, NewCallID_call,
                      Store (LoadSIPOutboundTrunk_call ''ST_carrier''),
                      psrpc_CreateSIPParticipant_call
                        (admin_ctx\<lparr>Deadline := Some (1030 * Second)\<rparr>) [] built_request
                        (30 * Second)]\<rparr>)"
    unfolding CreateSIPParticipant_def built
    by (simp add: run_simps mem_service_def mem_client_def admin_ctx_def
        context_WithTimeout_def mem_packages_def mem0_def Second_def built_request_def
        participant_request_def start_def)
  from once run refused show ?thesis
    by simp
qed

end
